theory Spec2Isabelle
  imports Main "HOL-Library.Sublist" "HOL-Library.Char_ord"
begin

section \<open>Go strings and errors\<close>

text \<open>
  A Go string is a sequence of bytes: \<^typ>\<open>string\<close>. A Go \<open>error\<close> is modelled by the
  text its \<open>Error()\<close> method returns, because the recorder classifies errors by searching
  that text; \<open>nil\<close> is \<^term>\<open>None\<close>. \<open>fmt.Errorf("...: %w", err)\<close> becomes the
  concatenation of the prefix and the wrapped text. Go's \<open>int\<close> is \<^typ>\<open>int\<close>: the only
  integers here are list lengths, small counters and the sample rate.
\<close>

type_synonym error = "string option"

text \<open>\<open>strings.Contains\<close>.\<close>

fun Contains :: "string \<Rightarrow> string \<Rightarrow> bool" where
  "Contains [] substr = (substr = [])"
| "Contains (c # s) substr = (prefix substr (c # s) \<or> Contains s substr)"

text \<open>\<open>strings.HasPrefix\<close>.\<close>

definition HasPrefix :: "string \<Rightarrow> string \<Rightarrow> bool" where
  "HasPrefix s pre = prefix pre s"

text \<open>
  \<open>strings.TrimSpace\<close>, on bytes: the six ASCII white-space bytes of Go's \<open>asciiSpace\<close>
  table. The recorder calls it only on a string that \<open>cleanFileName\<close> has already reduced
  to ASCII letters, digits, spaces, hyphens and underscores.
\<close>

definition asciiSpace :: "char \<Rightarrow> bool" where
  "asciiSpace c = (c \<in> {CHR 0x09, CHR 0x0A, CHR 0x0B, CHR 0x0C, CHR 0x0D, CHR '' ''})"

definition TrimSpace :: "string \<Rightarrow> string" where
  "TrimSpace s = rev (dropWhile asciiSpace (rev (dropWhile asciiSpace s)))"

text \<open>
  \<open>strings.ReplaceAll\<close> for a non-empty \<open>old\<close>: non-overlapping matches, left to right.
  With an empty \<open>old\<close> (never passed by this program) Go inserts \<open>new\<close> around every
  character.
\<close>

function ReplaceAll :: "string \<Rightarrow> string \<Rightarrow> string \<Rightarrow> string" where
  "ReplaceAll s old new =
     (if old = [] then new @ concat (map (\<lambda>c. c # new) s)
      else if s = [] then []
      else if prefix old s then new @ ReplaceAll (drop (length old) s) old new
      else hd s # ReplaceAll (tl s) old new)"
  by pat_completeness auto
termination
  by (relation "measure (\<lambda>(s, old, new). length s)") (auto simp: neq_Nil_conv)

declare ReplaceAll.simps [simp del]

text \<open>\<open>strings.Join\<close>.\<close>

fun Join :: "string list \<Rightarrow> string \<Rightarrow> string" where
  "Join [] sep = []"
| "Join [x] sep = x"
| "Join (x # y # ys) sep = x @ sep @ Join (y # ys) sep"

text \<open>\<open>fmt.Sprintf("%d", n)\<close> and \<open>fmt.Sprintf("%v", xs)\<close> for a \<open>[]string\<close>.\<close>

function digits :: "nat \<Rightarrow> string" where
  "digits n = (if n < 10 then [char_of (48 + n)] else digits (n div 10) @ [char_of (48 + n mod 10)])"
  by pat_completeness auto
termination
  by (relation "measure id") auto

declare digits.simps [simp del]

definition Itoa :: "int \<Rightarrow> string" where
  "Itoa i = (if i < 0 then CHR ''-'' # digits (nat (- i)) else digits (nat i))"

definition fmt_strings :: "string list \<Rightarrow> string" where
  "fmt_strings xs = ''['' @ Join xs '' '' @ '']''"

section \<open>Configuration\<close>

text \<open>
  The resolved configuration the recorder consumes (package \<open>config\<close>). \<open>Channel.Volume\<close>, a
  float the recorder never reads, is left out.
\<close>

record AudioConfig =
  SampleRate :: int
  Backend :: string

record Channel =
  Name :: string
  Sources :: "string list"
  AudioMode :: string
  Type :: string
  Delay :: int

record OutputConfig =
  Directory :: string
  Format :: string

record Config =
  Audio :: AudioConfig
  Channels :: "Channel list"
  Output :: OutputConfig

section \<open>The outside world\<close>

text \<open>
  What an operation observes outside the process while it runs: the routing graph as
  \<open>pw-link -io\<close> prints it, the file system, the clock and the encoder subprocess. One
  operation sees one snapshot. \<open>pw_link_io\<close> is \<open>Inl\<close> the exec error when the command
  fails, else the lines of its output, each already passed through \<open>strings.TrimSpace\<close>.
\<close>

datatype wait_error =
    ExitError int "string option"  \<comment> \<open>\<open>*exec.ExitError\<close>: \<open>ExitCode()\<close>, \<open>ProcessState.String()\<close> (or a nil state)\<close>
  | OtherError string

datatype wait_outcome =
    Exited "wait_error option"  \<comment> \<open>\<open>Wait\<close> returned within 5 seconds, with nil or an error\<close>
  | TimedOut                    \<comment> \<open>no exit within 5 seconds\<close>

record World =
  pw_link_io :: "string + string list"
  pw_link_connect :: "string \<Rightarrow> string \<Rightarrow> (string \<times> string) option"
  os_MkdirAll :: "string \<Rightarrow> error"
  os_Stat :: "string \<Rightarrow> int option"
  os_Environ :: "string list"
  time_Now :: int
  filepath_Join :: "string \<Rightarrow> string \<Rightarrow> string"
  cmd_StdoutPipe :: error
  cmd_StderrPipe :: error
  cmd_Start :: "string + nat"
  process_Signal :: error
  cmd_Wait :: wait_outcome

section \<open>Port directory and connection manager (pipewire.go)\<close>

definition ListPorts :: "World \<Rightarrow> string + string list" where
  "ListPorts w =
     (case pw_link_io w of
        Inl err \<Rightarrow> Inl (''failed to list PipeWire ports: '' @ err)
      | Inr lines \<Rightarrow>
          Inr (filter (\<lambda>line. line \<noteq> [] \<and> \<not> HasPrefix line ''Input ports:''
                               \<and> \<not> HasPrefix line ''Output ports:'') lines))"

definition portExists :: "World \<Rightarrow> string \<Rightarrow> bool" where
  "portExists w portName =
     (case pw_link_io w of Inl err \<Rightarrow> False | Inr lines \<Rightarrow> portName \<in> set lines)"

definition findPortDuplicates :: "World \<Rightarrow> string \<Rightarrow> string + string list" where
  "findPortDuplicates w portName =
     (case ListPorts w of
        Inl err \<Rightarrow> Inl (''failed to list ports: '' @ err)
      | Inr allPorts \<Rightarrow> Inr (filter (\<lambda>port. port = portName) allPorts))"

definition findPortDuplicatesInList :: "string \<Rightarrow> string list \<Rightarrow> string list" where
  "findPortDuplicatesInList portName allPorts = filter (\<lambda>port. port = portName) allPorts"

definition errPortNotFound :: "string \<Rightarrow> string" where
  "errPortNotFound portName = ''port not found: '' @ portName"

definition errDuplicateSources :: "string \<Rightarrow> string list \<Rightarrow> string" where
  "errDuplicateSources portName duplicates =
     ''duplicate sources detected for '' @ [CHR 0x27] @ portName @ [CHR 0x27] @ '': ''
       @ fmt_strings duplicates @ ''. Please close conflicting applications''"

definition ValidatePort :: "World \<Rightarrow> string \<Rightarrow> error" where
  "ValidatePort w portName =
     (if portName = [] \<or> portName = ''disabled'' then None
      else if \<not> portExists w portName then Some (errPortNotFound portName)
      else case findPortDuplicates w portName of
             Inl err \<Rightarrow> Some (''failed to check port duplicates: '' @ err)
           | Inr duplicates \<Rightarrow>
               if length duplicates > 1 then Some (errDuplicateSources portName duplicates)
               else None)"

text \<open>The test suite's list-based copy of \<open>ValidatePort\<close> (pipewire_test.go).\<close>

definition TestableValidatePort :: "string \<Rightarrow> string list \<Rightarrow> error" where
  "TestableValidatePort portName allPorts =
     (if portName = [] \<or> portName = ''disabled'' then None
      else if \<not> (portName \<in> set allPorts) then Some (errPortNotFound portName)
      else let duplicates = findPortDuplicatesInList portName allPorts
           in if length duplicates > 1 then Some (errDuplicateSources portName duplicates)
              else None)"

definition connectPorts :: "World \<Rightarrow> string \<Rightarrow> string \<Rightarrow> error" where
  "connectPorts w sourcePort destPort =
     (case pw_link_connect w sourcePort destPort of
        None \<Rightarrow> None
      | Some (err, output) \<Rightarrow>
          Some (''failed to connect ports: '' @ err @ '' (output: '' @ output @ '')''))"

definition ephemeralApps :: "string list" where
  "ephemeralApps =
     [''chrome'', ''firefox'', ''spotify'', ''discord'', ''steam'',
      ''vlc'', ''mpv'', ''zoom'', ''teams'', ''slack'', ''wire'']"

fun containsAny :: "string \<Rightarrow> string list \<Rightarrow> bool" where
  "containsAny lowerPort [] = False"
| "containsAny lowerPort (app # apps) =
     (if Contains lowerPort app then True else containsAny lowerPort apps)"

text \<open>
  \<open>strings.ToLower\<close> belongs to Go's library, not to this repository, and it is not a
  function of single bytes: it lower-cases every Unicode letter of the UTF-8 text, and some
  letters outside ASCII become ASCII letters (the Kelvin sign U+212A becomes \<open>k\<close>, the
  dotted capital I U+0130 becomes \<open>i\<close>). \<open>isEphemeralPort\<close> and its caller therefore
  take it as the parameter \<open>strings_ToLower\<close>; what is proved about them holds whatever the
  library does to a name.
\<close>

definition isEphemeralPort :: "(string \<Rightarrow> string) \<Rightarrow> string \<Rightarrow> bool" where
  "isEphemeralPort strings_ToLower portName =
     (let lowerPort = strings_ToLower portName
      in containsAny lowerPort ephemeralApps)"

text \<open>
  The retry loop of \<open>ConnectPortsWithRetry\<close>. Attempt \<open>n\<close> sees the world \<open>ws n\<close>. The second
  component records what the loop did, in order; durations are in milliseconds.
\<close>

datatype event = CheckPort nat | ConnectAttempt nat | Sleep nat

function retryLoop ::
  "(nat \<Rightarrow> World) \<Rightarrow> string \<Rightarrow> string \<Rightarrow> nat \<Rightarrow> nat \<Rightarrow> nat \<Rightarrow> error \<times> event list" where
  "retryLoop ws sourcePort destPort maxRetries retryDelay attempt =
     (if attempt \<le> maxRetries then
        if portExists (ws attempt) sourcePort
           \<and> connectPorts (ws attempt) sourcePort destPort = None
        then (None, [CheckPort attempt, ConnectAttempt attempt])
        else
          let done = CheckPort attempt
                # (if portExists (ws attempt) sourcePort then [ConnectAttempt attempt] else [])
                @ (if attempt < maxRetries then [Sleep retryDelay] else []);
              (err, later) = retryLoop ws sourcePort destPort maxRetries retryDelay (Suc attempt)
          in (err, done @ later)
      else
        (Some (''failed to connect '' @ sourcePort @ '' to '' @ destPort @ '' after ''
                @ Itoa (int maxRetries) @ '' attempts''), []))"
  by pat_completeness auto
termination
  by (relation "measure (\<lambda>(ws, s, d, m, delay, a). Suc m - a)") auto

declare retryLoop.simps [simp del]

definition ConnectPortsWithRetry ::
  "(string \<Rightarrow> string) \<Rightarrow> (nat \<Rightarrow> World) \<Rightarrow> string \<Rightarrow> string \<Rightarrow> error \<times> event list" where
  "ConnectPortsWithRetry strings_ToLower ws sourcePort destPort =
     (let isEphemeral = isEphemeralPort strings_ToLower sourcePort;
          maxRetries = (if isEphemeral then 15 else 5);
          retryDelay = (if isEphemeral then 1000 else 500)
      in retryLoop ws sourcePort destPort maxRetries retryDelay 1)"

section \<open>The recorder (pipewire_backend.go)\<close>

datatype Status = StatusStandby | StatusReady | StatusRecording | StatusError

fun status_str :: "Status \<Rightarrow> string" where
  "status_str StatusStandby = ''STANDBY''"
| "status_str StatusReady = ''READY''"
| "status_str StatusRecording = ''RECORDING''"
| "status_str StatusError = ''ERROR''"

record SessionInfo =
  SongName :: string
  StartTime :: int
  OutputFile :: string
  ChannelCount :: int
  ChannelNames :: "string list"

text \<open>The encoder handle \<open>*exec.Cmd\<close>, and a Go channel used as a one-shot signal.\<close>

record Cmd =
  Args :: "string list"
  Env :: "string list"
  Process :: "nat option"

datatype chan = Open | Closed

text \<open>
  The goroutine that \<open>startSourceMonitoring\<close> starts (l.562-639) takes and releases the
  recorder's lock several times in one pass of its loop, and other goroutines can run in
  between. \<open>monitor_pc\<close> names the places where it can stand without holding the lock:

  \<^item> \<open>Starting\<close>: started, before the read of the status for its first log line (l.565-567);
  \<^item> \<open>AtSelect\<close>: waiting in the \<open>select\<close> (l.576);
  \<^item> \<open>TimeoutFired\<close>: the 30 second timeout was received, before l.583;
  \<^item> \<open>Ticked\<close>: a 500 ms tick was received, before the read of the status (l.592-594);
  \<^item> \<open>ToStandby returns\<close>: it has decided to write Standby, before l.602 (and then it
    returns) or before l.613 (and then it goes on);
  \<^item> \<open>Checking\<close>: \<open>checkAllSourcesAvailable\<close> was true, before the test of l.621-622;
  \<^item> \<open>CallStart\<close>: the test of l.622 saw Ready and the lock was released (l.623), before
    the call of \<open>StartRecording\<close> (l.626);
  \<^item> \<open>StartFailed\<close>: that call returned an error, before l.628;
  \<^item> \<open>HasReturned\<close>: it has returned, and its deferred \<open>close\<close> has closed its done channel.

  At every place but \<open>AtSelect\<close> and \<open>HasReturned\<close> the next thing it does is to take the lock.
  \<open>select_case\<close> is the case the \<open>select\<close> takes.
\<close>

datatype monitor_pc =
  Starting | AtSelect | TimeoutFired | Ticked | ToStandby bool | Checking | CallStart
  | StartFailed | HasReturned

datatype select_case = StopClosed | TimeoutElapsed | TickerFired

text \<open>
  The fields of \<open>PipeWireRecorder\<close> that its methods read or write; the log writer, the
  stateless \<open>pipewire\<close> helper, the lock and the two output buffers filled by the reader
  goroutines are left out. The configuration \<open>cfg\<close> never changes during the life of a
  recorder and is passed beside it. A method becomes a function from the recorder to its
  result and the recorder afterwards; it holds the recorder's lock from its first
  statement to its return, so it is one indivisible step.

  The last component, \<open>monitors\<close>, is not a field of the struct. It lists the monitor
  goroutines that the recorder has started, oldest first, each with the place where it
  stands; the channels in \<open>sourceMonitorStop\<close> and \<open>sourceMonitorDone\<close> are those of the
  last one.
\<close>

record PipeWireRecorder =
  status :: Status
  session :: "SessionInfo option"
  isRecording :: bool
  stopChan :: "chan option"
  ffmpegCmd :: "Cmd option"
  sourceMonitorStop :: "chan option"
  sourceMonitorDone :: "chan option"
  channelStatusCache :: "(string \<rightharpoonup> string) option"
  channelStatusCacheTime :: int
  monitors :: "monitor_pc list"

definition NewPipeWireRecorder :: PipeWireRecorder where
  "NewPipeWireRecorder =
     \<lparr>status = StatusStandby, session = None, isRecording = False, stopChan = None,
      ffmpegCmd = None, sourceMonitorStop = None, sourceMonitorDone = None,
      channelStatusCache = None, channelStatusCacheTime = 0, monitors = []\<rparr>"

text \<open>
  What a method call ends with: it returns, it panics, or it never returns because it
  waits, holding the lock, for a goroutine that needs the lock.
\<close>

datatype outcome = Returned error | Panicked string | NeverReturns

definition enabled :: "string \<Rightarrow> bool" where
  "enabled source = (source \<noteq> [] \<and> source \<noteq> ''disabled'')"

definition isDuplicateError :: "string \<Rightarrow> bool" where
  "isDuplicateError err = Contains err ''duplicate sources detected''"

subsection \<open>cleanFileName\<close>

text \<open>
  The loop ranges over runes; a rune that passes the test is ASCII and so is one byte, and
  every byte of a longer rune fails it, so the loop keeps exactly the bytes that pass.
\<close>

definition keepRune :: "char \<Rightarrow> bool" where
  "keepRune r =
     ((CHR ''a'' \<le> r \<and> r \<le> CHR ''z'') \<or> (CHR ''A'' \<le> r \<and> r \<le> CHR ''Z'')
      \<or> (CHR ''0'' \<le> r \<and> r \<le> CHR ''9'') \<or> r = CHR '' '' \<or> r = CHR ''-'' \<or> r = CHR ''_'')"

definition cleanFileName :: "string \<Rightarrow> string" where
  "cleanFileName name = ReplaceAll (TrimSpace (filter keepRune name)) '' '' ''_''"

subsection \<open>Source scans\<close>

fun sourcesHaveDuplicate :: "World \<Rightarrow> string list \<Rightarrow> bool" where
  "sourcesHaveDuplicate w [] = False"
| "sourcesHaveDuplicate w (source # rest) =
     (if enabled source then
        (case ValidatePort w source of
           Some err \<Rightarrow> if isDuplicateError err then True else sourcesHaveDuplicate w rest
         | None \<Rightarrow> sourcesHaveDuplicate w rest)
      else sourcesHaveDuplicate w rest)"

fun channelsHaveDuplicate :: "World \<Rightarrow> Channel list \<Rightarrow> bool" where
  "channelsHaveDuplicate w [] = False"
| "channelsHaveDuplicate w (channel # rest) =
     (if sourcesHaveDuplicate w (Sources channel) then True else channelsHaveDuplicate w rest)"

definition hasDuplicateSources :: "World \<Rightarrow> Config \<Rightarrow> bool" where
  "hasDuplicateSources w cfg = channelsHaveDuplicate w (Channels cfg)"

text \<open>
  The first loop of \<open>checkAllSourcesAvailable\<close>. The inner loop carries
  \<open>(channelHasAllSources, channelHasAnySources, totalChannelsToCheck, hasDuplicates)\<close>, the
  outer one \<open>(validChannels, totalChannelsToCheck, hasDuplicates)\<close>.
\<close>

fun checkSources :: "World \<Rightarrow> string list \<Rightarrow> bool \<times> bool \<times> int \<times> bool \<Rightarrow> bool \<times> bool \<times> int \<times> bool" where
  "checkSources w [] acc = acc"
| "checkSources w (source # rest) (hasAll, hasAny, toCheck, dups) =
     (if enabled source then
        (case ValidatePort w source of
           Some err \<Rightarrow>
             checkSources w rest (False, True, toCheck + 1, (if isDuplicateError err then True else dups))
         | None \<Rightarrow> checkSources w rest (hasAll, True, toCheck + 1, dups))
      else checkSources w rest (hasAll, hasAny, toCheck, dups))"

fun checkChannels :: "World \<Rightarrow> Channel list \<Rightarrow> int \<times> int \<times> bool \<Rightarrow> int \<times> int \<times> bool" where
  "checkChannels w [] acc = acc"
| "checkChannels w (channel # rest) (valid, toCheck, dups) =
     (case checkSources w (Sources channel) (True, False, toCheck, dups) of
        (hasAll, hasAny, toCheck', dups') \<Rightarrow>
          checkChannels w rest ((if hasAny \<and> hasAll then valid + 1 else valid), toCheck', dups'))"

text \<open>The second loop: the channels that have at least one enabled source.\<close>

fun hasAnySources :: "string list \<Rightarrow> bool" where
  "hasAnySources [] = False"
| "hasAnySources (source # rest) = (if enabled source then True else hasAnySources rest)"

fun countChannelsWithSources :: "Channel list \<Rightarrow> int \<Rightarrow> int" where
  "countChannelsWithSources [] n = n"
| "countChannelsWithSources (channel # rest) n =
     countChannelsWithSources rest (if hasAnySources (Sources channel) then n + 1 else n)"

definition checkAllSourcesAvailable :: "World \<Rightarrow> Config \<Rightarrow> bool" where
  "checkAllSourcesAvailable w cfg =
     (case checkChannels w (Channels cfg) (0, 0, False) of
        (validChannels, totalChannelsToCheck, hasDuplicates) \<Rightarrow>
          if hasDuplicates then False
          else let totalChannelsWithSources = countChannelsWithSources (Channels cfg) 0
               in validChannels > 0 \<and> validChannels = totalChannelsWithSources)"

subsection \<open>Channel status\<close>

text \<open>
  The inner loop of \<open>scanChannelStatus\<close>, which stops at the first source that fails:
  \<open>(channelAvailable, channelHasDuplicates)\<close>.
\<close>

fun scanSources :: "World \<Rightarrow> string list \<Rightarrow> bool \<times> bool" where
  "scanSources w [] = (True, False)"
| "scanSources w (source # rest) =
     (if enabled source then
        (case ValidatePort w source of
           Some err \<Rightarrow> (False, isDuplicateError err)
         | None \<Rightarrow> scanSources w rest)
      else scanSources w rest)"

definition channelStatusOf :: "World \<Rightarrow> Channel \<Rightarrow> string" where
  "channelStatusOf w channel =
     (case scanSources w (Sources channel) of
        (channelAvailable, channelHasDuplicates) \<Rightarrow>
          if channelHasDuplicates then ''duplicate''
          else if channelAvailable then ''available''
          else ''unavailable'')"

fun scanChannels :: "World \<Rightarrow> Channel list \<Rightarrow> (string \<rightharpoonup> string) \<Rightarrow> (string \<rightharpoonup> string)" where
  "scanChannels w [] m = m"
| "scanChannels w (channel # rest) m =
     scanChannels w rest (m(Name channel \<mapsto> channelStatusOf w channel))"

definition scanChannelStatus ::
  "World \<Rightarrow> Config \<Rightarrow> PipeWireRecorder \<Rightarrow> (string \<rightharpoonup> string) \<times> PipeWireRecorder" where
  "scanChannelStatus w cfg r =
     (let m = scanChannels w (Channels cfg) Map.empty
      in (m, r\<lparr>channelStatusCache := Some m, channelStatusCacheTime := time_Now w\<rparr>))"

definition GetChannelStatus ::
  "World \<Rightarrow> Config \<Rightarrow> PipeWireRecorder \<Rightarrow> (string \<rightharpoonup> string) \<times> PipeWireRecorder" where
  "GetChannelStatus w cfg r =
     (if status r = StatusRecording then
        (case channelStatusCache r of
           Some cache \<Rightarrow> (cache, r)
         | None \<Rightarrow> scanChannelStatus w cfg r)
      else scanChannelStatus w cfg r)"

definition GetStatus :: "PipeWireRecorder \<Rightarrow> Status \<times> SessionInfo option" where
  "GetStatus r = (status r, session r)"

subsection \<open>The source monitor's channels\<close>

text \<open>
  \<open>startSourceMonitoring\<close> makes two fresh channels and starts a monitor goroutine, whose
  steps are \<open>monitorStep\<close> below.

  \<open>stopSourceMonitoring\<close> closes the stop channel, which panics in Go when the channel is
  closed already, and then receives from the done channel. Its callers \<open>Stop\<close> and
  \<open>CancelReady\<close> hold the recorder's lock meanwhile. The receive returns at once when the
  done channel is closed already. Otherwise the last monitor must return first, and it can
  do so only from its \<open>select\<close>, by the stop case; anywhere else it needs the lock
  next, which the caller does not release while it waits: neither of them ever goes on.
\<close>

definition startSourceMonitoring :: "PipeWireRecorder \<Rightarrow> PipeWireRecorder" where
  "startSourceMonitoring r =
     r\<lparr>sourceMonitorStop := Some Open, sourceMonitorDone := Some Open,
       monitors := monitors r @ [Starting]\<rparr>"

datatype stopped = Stopped PipeWireRecorder | ClosePanics | WaitsForever PipeWireRecorder

definition stopSourceMonitoring :: "PipeWireRecorder \<Rightarrow> stopped" where
  "stopSourceMonitoring r =
     (case sourceMonitorStop r of
        None \<Rightarrow> Stopped r
      | Some Closed \<Rightarrow> ClosePanics
      | Some Open \<Rightarrow>
          (let r1 = r\<lparr>sourceMonitorStop := Some Closed\<rparr>
           in case sourceMonitorDone r1 of
                None \<Rightarrow> Stopped r1
              | Some Closed \<Rightarrow> Stopped r1
              | Some Open \<Rightarrow>
                  if monitors r1 \<noteq> [] \<and> last (monitors r1) = AtSelect
                  then Stopped (r1\<lparr>sourceMonitorDone := Some Closed,
                                    monitors := butlast (monitors r1) @ [HasReturned]\<rparr>)
                  else WaitsForever r1))"

subsection \<open>Encoder process\<close>

definition inputArgs :: "Channel \<Rightarrow> string list" where
  "inputArgs channel =
     (let n = int (length (Sources channel));
          channelCount = (if n = 0 then 1 else n);
          channelCount = (if channelCount > 2 then 2 else channelCount)
      in [''-f'', ''jack'', ''-channels'', Itoa channelCount, ''-i'', ''jamcapture_'' @ Name channel])"

definition mapArgs :: "nat \<times> Channel \<Rightarrow> string list" where
  "mapArgs ic =
     (case ic of (i, channel) \<Rightarrow>
        [''-map'', Itoa (int i) @ '':0'',
         ''-metadata:s:a:'' @ Itoa (int i), ''title='' @ Name channel])"

definition ffmpegArgs :: "Config \<Rightarrow> Channel list \<Rightarrow> string \<Rightarrow> string list" where
  "ffmpegArgs cfg channels outputFile =
     [''pw-jack'', ''ffmpeg'']
     @ concat (map inputArgs channels)
     @ [''-ar'', Itoa (SampleRate (Audio cfg))]
     @ concat (map mapArgs (enumerate 0 channels))
     @ [''-c:a'', Format (Output cfg), ''-y'', outputFile]"

definition buildAndStartFFmpeg ::
  "World \<Rightarrow> Config \<Rightarrow> Channel list \<Rightarrow> string \<Rightarrow> PipeWireRecorder \<Rightarrow> error \<times> PipeWireRecorder" where
  "buildAndStartFFmpeg w cfg channels outputFile r =
     (let env = os_Environ w @ [''PIPEWIRE_QUANTUM=256/48000'', ''PIPEWIRE_LATENCY=256/48000''];
          args = ffmpegArgs cfg channels outputFile
      in case cmd_StdoutPipe w of
           Some err \<Rightarrow> (Some (''failed to create stdout pipe: '' @ err), r)
         | None \<Rightarrow>
             (case cmd_StderrPipe w of
                Some err \<Rightarrow> (Some (''failed to create stderr pipe: '' @ err), r)
              | None \<Rightarrow>
                  (case cmd_Start w of
                     Inl err \<Rightarrow> (Some (''failed to start FFmpeg: '' @ err), r)
                   | Inr pid \<Rightarrow>
                       (None, r\<lparr>ffmpegCmd := Some \<lparr>Args = args, Env = env, Process = Some pid\<rparr>\<rparr>))))"

text \<open>
  \<open>stopFFmpeg\<close>. The middle component lists the signals sent to the encoder, in order.
  \<open>wait_error_text\<close> is \<open>err.Error()\<close> of what \<open>Wait\<close> returned.
\<close>

datatype signal = SIGINT | SIGKILL

fun wait_error_text :: "wait_error \<Rightarrow> string" where
  "wait_error_text (ExitError code (Some state)) = state"
| "wait_error_text (ExitError code None) = ''<nil>''"
| "wait_error_text (OtherError msg) = msg"

fun cleanInterrupt :: "wait_error \<Rightarrow> bool" where
  "cleanInterrupt (ExitError code state) =
     (if code = 255 then True
      else case state of
             Some stateStr \<Rightarrow> stateStr = ''signal: interrupt'' \<or> stateStr = ''signal: killed''
           | None \<Rightarrow> False)"
| "cleanInterrupt (OtherError msg) = False"

definition interruptSignals :: "World \<Rightarrow> Cmd \<Rightarrow> signal list" where
  "interruptSignals w cmd =
     (case Process cmd of
        None \<Rightarrow> []
      | Some p \<Rightarrow> (case process_Signal w of None \<Rightarrow> [SIGINT] | Some err \<Rightarrow> [SIGINT, SIGKILL]))"

definition killSignals :: "Cmd \<Rightarrow> signal list" where
  "killSignals cmd = (case Process cmd of None \<Rightarrow> [] | Some p \<Rightarrow> [SIGKILL])"

definition stopFFmpeg :: "World \<Rightarrow> PipeWireRecorder \<Rightarrow> error \<times> signal list \<times> PipeWireRecorder" where
  "stopFFmpeg w r =
     (case ffmpegCmd r of
        None \<Rightarrow> (None, [], r)
      | Some cmd \<Rightarrow>
          (let sent = interruptSignals w cmd
           in (case cmd_Wait w of
                 Exited res \<Rightarrow>
                   (case res of
                      None \<Rightarrow> (None, sent, r\<lparr>ffmpegCmd := None\<rparr>)
                    | Some err \<Rightarrow>
                        (if cleanInterrupt err then (None, sent, r\<lparr>ffmpegCmd := None\<rparr>)
                         else (Some (''FFmpeg process failed: '' @ wait_error_text err), sent,
                               r\<lparr>ffmpegCmd := None\<rparr>)))
               | TimedOut \<Rightarrow> (None, sent @ killSignals cmd, r\<lparr>ffmpegCmd := None\<rparr>))))"

definition validateOutputFile :: "World \<Rightarrow> PipeWireRecorder \<Rightarrow> error" where
  "validateOutputFile w r =
     (case session r of
        None \<Rightarrow> Some ''no session info available''
      | Some s \<Rightarrow>
          (case os_Stat w (OutputFile s) of
             None \<Rightarrow> Some (''recording file not found: '' @ OutputFile s)
           | Some fileSize \<Rightarrow>
               if fileSize < 1024
               then Some (''recording failed: file too small ('' @ Itoa fileSize @ '' bytes)'')
               else None))"

subsection \<open>The state machine\<close>

definition channelName :: "Channel \<Rightarrow> string" where
  "channelName ch = Name ch @ '':['' @ Join (Sources ch) '','' @ '']''"

definition StartReady ::
  "World \<Rightarrow> Config \<Rightarrow> string \<Rightarrow> PipeWireRecorder \<Rightarrow> error \<times> PipeWireRecorder" where
  "StartReady w cfg songName r =
     (if status r \<noteq> StatusStandby \<and> status r \<noteq> StatusError then
        (Some (''can only start ready from standby or error state, current: ''
                @ status_str (status r)), r)
      else if songName = [] then (Some ''song name is required'', r)
      else case os_MkdirAll w (Directory (Output cfg)) of
             Some err \<Rightarrow>
               (Some (''failed to create output directory: '' @ err), r\<lparr>status := StatusError\<rparr>)
           | None \<Rightarrow>
               let cleanName = cleanFileName songName;
                   outputFile = filepath_Join w (Directory (Output cfg)) (cleanName @ ''.mkv'');
                   enabledChannels = Channels cfg;
                   channelNames = map channelName enabledChannels
               in if hasDuplicateSources w cfg then
                    (Some ''duplicate audio sources detected - please close conflicting applications before starting recording'',
                     startSourceMonitoring (r\<lparr>status := StatusError\<rparr>))
                  else
                    (None,
                     startSourceMonitoring
                       (r\<lparr>session := Some \<lparr>SongName = songName, StartTime = time_Now w,
                                             OutputFile = outputFile,
                                             ChannelCount = int (length enabledChannels),
                                             ChannelNames = channelNames\<rparr>,
                          status := StatusReady\<rparr>)))"

text \<open>
  \<open>StartRecording\<close> also removes an existing output file and starts \<open>recordingWorker\<close> in
  the background; neither touches a field of the recorder.
\<close>

definition StartRecording :: "World \<Rightarrow> Config \<Rightarrow> PipeWireRecorder \<Rightarrow> error \<times> PipeWireRecorder" where
  "StartRecording w cfg r =
     (if status r \<noteq> StatusReady then
        (Some (''can only start recording from ready state, current: '' @ status_str (status r)), r)
      else case session r of
             None \<Rightarrow> (Some ''no session prepared, call StartReady first'', r)
           | Some s \<Rightarrow>
               (let r1 = snd (scanChannelStatus w cfg r);
                    enabledChannels = Channels cfg;
                    (err, r2) = buildAndStartFFmpeg w cfg enabledChannels (OutputFile s) r1
                in (case err of
                      Some e \<Rightarrow> (Some (''failed to start FFmpeg: '' @ e), r2\<lparr>status := StatusError\<rparr>)
                    | None \<Rightarrow>
                        (None, r2\<lparr>isRecording := True, status := StatusRecording,
                                  stopChan := Some Open\<rparr>))))"

definition Stop :: "World \<Rightarrow> PipeWireRecorder \<Rightarrow> outcome \<times> PipeWireRecorder" where
  "Stop w r =
     (if status r \<noteq> StatusRecording then (Returned (Some ''no recording in progress''), r)
      else case stopSourceMonitoring r of
             ClosePanics \<Rightarrow> (Panicked ''close of closed channel'', r)
           | WaitsForever r1 \<Rightarrow> (NeverReturns, r1)
           | Stopped r1 \<Rightarrow>
               (let r2 = r1\<lparr>isRecording := False\<rparr>
                in if stopChan r2 = Some Closed then (Panicked ''close of closed channel'', r2)
                   else
                     (let r3 = r2\<lparr>stopChan := map_option (\<lambda>c. Closed) (stopChan r2)\<rparr>;
                          (stopErr, sent, r4) = stopFFmpeg w r3
                      in (case stopErr of
                            Some err \<Rightarrow>
                              (Returned (Some (''failed to stop FFmpeg: '' @ err)),
                               r4\<lparr>status := StatusError\<rparr>)
                          | None \<Rightarrow>
                              (case validateOutputFile w r4 of
                                 Some err \<Rightarrow> (Returned (Some err), r4\<lparr>status := StatusError\<rparr>)
                               | None \<Rightarrow> (Returned None, r4\<lparr>status := StatusStandby\<rparr>))))))"

definition CancelReady :: "PipeWireRecorder \<Rightarrow> outcome \<times> PipeWireRecorder" where
  "CancelReady r =
     (if status r \<noteq> StatusReady then
        (Returned (Some (''can only cancel from ready state, current: '' @ status_str (status r))), r)
      else case stopSourceMonitoring r of
             ClosePanics \<Rightarrow> (Panicked ''close of closed channel'', r)
           | WaitsForever r1 \<Rightarrow> (NeverReturns, r1)
           | Stopped r1 \<Rightarrow> (Returned None, r1\<lparr>status := StatusStandby, session := None\<rparr>))"

subsection \<open>The monitor goroutine\<close>

text \<open>
  One step of a monitor goroutine: from a place where it holds no lock, through the next
  critical section, to the next such place. What it computes without the lock after a
  critical section (\<open>hasDuplicateSources\<close> l.596, \<open>checkAllSourcesAvailable\<close> l.620) reads
  the routing graph only and is part of the step, in the world of that step. The step
  takes the recorder as it is when the lock is taken, which need not be the recorder of
  the goroutine's previous step.

  In the \<open>select\<close> the stop case receives from the channel that the field
  \<open>sourceMonitorStop\<close> holds when the goroutine enters the \<open>select\<close>; the step reads the
  field when the case is taken. The two differ only for a goroutine that is not the last
  one started, and the return of such a goroutine changes no field of the recorder. The
  deferred \<open>close\<close> of l.563 closes the done channel that the field \<open>sourceMonitorDone\<close>
  holds when the goroutine starts, which is its own.

  The writes of l.603-604, l.614-615 and l.629 are unconditional: they do not look at the
  status again.
\<close>

definition afterStateHandling :: "World \<Rightarrow> Config \<Rightarrow> monitor_pc" where
  "afterStateHandling w cfg = (if checkAllSourcesAvailable w cfg then Checking else AtSelect)"

fun monitorStep ::
  "World \<Rightarrow> Config \<Rightarrow> select_case \<Rightarrow> monitor_pc \<Rightarrow> PipeWireRecorder
     \<Rightarrow> monitor_pc \<times> PipeWireRecorder" where
  "monitorStep w cfg ev Starting r = (AtSelect, r)"
| "monitorStep w cfg ev AtSelect r =
     (case ev of
        StopClosed \<Rightarrow> (if sourceMonitorStop r = Some Closed then (HasReturned, r) else (AtSelect, r))
      | TimeoutElapsed \<Rightarrow> (TimeoutFired, r)
      | TickerFired \<Rightarrow> (Ticked, r))"
| "monitorStep w cfg ev TimeoutFired r =
     (HasReturned, if status r = StatusReady \<or> status r = StatusError
              then r\<lparr>status := StatusStandby, session := None\<rparr> else r)"
| "monitorStep w cfg ev Ticked r =
     (let currentStatus = status r;
          hasDuplicates = hasDuplicateSources w cfg
      in if currentStatus = StatusReady \<and> hasDuplicates then (ToStandby True, r)
         else if currentStatus = StatusError \<and> \<not> hasDuplicates then (ToStandby False, r)
         else (afterStateHandling w cfg, r))"
| "monitorStep w cfg ev (ToStandby returns) r =
     (let r1 = r\<lparr>status := StatusStandby, session := None\<rparr>
      in if returns then (HasReturned, r1) else (afterStateHandling w cfg, r1))"
| "monitorStep w cfg ev Checking r =
     (if status r = StatusReady then (CallStart, r) else (AtSelect, r))"
| "monitorStep w cfg ev CallStart r =
     (let (err, r1) = StartRecording w cfg r
      in (case err of
            Some e \<Rightarrow> (StartFailed, r1)
          | None \<Rightarrow> (HasReturned, r1)))"
| "monitorStep w cfg ev StartFailed r = (HasReturned, r\<lparr>status := StatusError\<rparr>)"
| "monitorStep w cfg ev HasReturned r = (HasReturned, r)"

text \<open>
  The step of the \<open>i\<close>-th monitor of a recorder. When the last monitor returns, the done
  channel of the recorder is closed.
\<close>

definition stepMonitor ::
  "World \<Rightarrow> Config \<Rightarrow> select_case \<Rightarrow> nat \<Rightarrow> PipeWireRecorder \<Rightarrow> PipeWireRecorder" where
  "stepMonitor w cfg ev i r =
     (if i < length (monitors r) then
        (let (pc, r1) = monitorStep w cfg ev (monitors r ! i) r;
             r2 = r1\<lparr>monitors := (monitors r1)[i := pc]\<rparr>
         in if pc = HasReturned \<and> Suc i = length (monitors r)
            then r2\<lparr>sourceMonitorDone := Some Closed\<rparr> else r2)
      else r)"

text \<open>
  A tick that no other goroutine interrupts: the steps of one monitor from \<open>Ticked\<close>, all
  in one world, until it is back in its \<open>select\<close> or has returned. The result lists the
  places it came through. A tick has at most five steps.
\<close>

fun runMonitor ::
  "nat \<Rightarrow> World \<Rightarrow> Config \<Rightarrow> monitor_pc \<Rightarrow> PipeWireRecorder
     \<Rightarrow> monitor_pc list \<times> PipeWireRecorder" where
  "runMonitor 0 w cfg pc r = ([], r)"
| "runMonitor (Suc n) w cfg pc r =
     (if pc = AtSelect \<or> pc = HasReturned then ([], r)
      else (let (pc1, r1) = monitorStep w cfg TickerFired pc r;
                (pcs, r2) = runMonitor n w cfg pc1 r1
            in (pc1 # pcs, r2)))"

definition uninterruptedTick ::
  "World \<Rightarrow> Config \<Rightarrow> PipeWireRecorder \<Rightarrow> monitor_pc list \<times> PipeWireRecorder" where
  "uninterruptedTick w cfg r = runMonitor 5 w cfg Ticked r"

subsection \<open>Reachable states\<close>

text \<open>
  The states a recorder built by \<open>NewPipeWireRecorder\<close> can be in: any number of calls of
  the \<open>Recorder\<close> interface and of steps of its monitors, in any order, each in a world
  of its own. After a call that never returns the lock stays taken and nothing but the
  lock-free steps of the monitors runs any more; the relation lists at least the states the
  program reaches.
\<close>

inductive reachable :: "Config \<Rightarrow> PipeWireRecorder \<Rightarrow> bool" for cfg :: Config where
  reach_new: "reachable cfg NewPipeWireRecorder"
| reach_StartReady: "reachable cfg r \<Longrightarrow> reachable cfg (snd (StartReady w cfg songName r))"
| reach_StartRecording: "reachable cfg r \<Longrightarrow> reachable cfg (snd (StartRecording w cfg r))"
| reach_Stop: "reachable cfg r \<Longrightarrow> reachable cfg (snd (Stop w r))"
| reach_CancelReady: "reachable cfg r \<Longrightarrow> reachable cfg (snd (CancelReady r))"
| reach_GetChannelStatus: "reachable cfg r \<Longrightarrow> reachable cfg (snd (GetChannelStatus w cfg r))"
| reach_stepMonitor: "reachable cfg r \<Longrightarrow> reachable cfg (stepMonitor w cfg ev i r)"

section \<open>Example configuration, world and states\<close>

text \<open>
  One mono channel \<open>guitar\<close> fed by \<open>dev:1\<close>; a world in which that port is present once,
  every system call succeeds, the encoder exits cleanly and its output file has 2048 bytes.
  \<open>example_ready\<close> is the recorder after \<open>StartReady\<close>, once the monitor it started waits in
  its \<open>select\<close>; \<open>example_recording\<close> is that recorder after \<open>StartRecording\<close>.
\<close>

definition example_world :: World where
  "example_world =
     \<lparr>pw_link_io = Inr [''dev:1''], pw_link_connect = (\<lambda>s d. None),
      os_MkdirAll = (\<lambda>d. None), os_Stat = (\<lambda>f. Some 2048), os_Environ = [], time_Now = 7,
      filepath_Join = (\<lambda>d f. d @ ''/'' @ f), cmd_StdoutPipe = None, cmd_StderrPipe = None,
      cmd_Start = Inr 42, process_Signal = None, cmd_Wait = Exited None\<rparr>"

definition example_cfg :: Config where
  "example_cfg =
     \<lparr>Audio = \<lparr>SampleRate = 48000, Backend = ''pipewire''\<rparr>,
      Channels = [\<lparr>Name = ''guitar'', Sources = [''dev:1''], AudioMode = ''mono'',
                   Type = ''input'', Delay = 0\<rparr>],
      Output = \<lparr>Directory = ''out'', Format = ''flac''\<rparr>\<rparr>"

definition example_ready :: PipeWireRecorder where
  "example_ready =
     stepMonitor example_world example_cfg TickerFired 0
       (snd (StartReady example_world example_cfg ''song'' NewPipeWireRecorder))"

definition example_recording :: PipeWireRecorder where
  "example_recording = snd (StartRecording example_world example_cfg example_ready)"

section \<open>File-name sanitising as the specification words it\<close>

text \<open>
  Keep only ASCII letters, digits, spaces, hyphens and underscores; trim surrounding
  white space; replace the remaining spaces with underscores.
\<close>

definition allowedChars :: string where
  "allowedChars = ''abcdefghijklmnopqrstuvwxyzABCDEFGHIJKLMNOPQRSTUVWXYZ0123456789 -_''"

definition sanitize :: "string \<Rightarrow> string" where
  "sanitize name =
     map (\<lambda>c. if c = CHR '' '' then CHR ''_'' else c)
       (TrimSpace (filter (\<lambda>c. c \<in> set allowedChars) name))"

text \<open>The encoder handle of the example recording, and worlds in which the encoder ends otherwise.\<close>

definition example_cmd :: Cmd where
  "example_cmd =
     \<lparr>Args = ffmpegArgs example_cfg (Channels example_cfg) ''out/song.mkv'',
      Env = [''PIPEWIRE_QUANTUM=256/48000'', ''PIPEWIRE_LATENCY=256/48000''],
      Process = Some 42\<rparr>"

definition world_exit1 :: World where
  "world_exit1 = example_world\<lparr>cmd_Wait := Exited (Some (ExitError 1 (Some ''exit status 1'')))\<rparr>"

definition world_timeout :: World where
  "world_timeout = example_world\<lparr>cmd_Wait := TimedOut\<rparr>"

text \<open>A configuration whose only channel has its source disabled, and the recorder prepared with it.\<close>

definition cfg_disabled :: Config where
  "cfg_disabled =
     example_cfg\<lparr>Channels := [\<lparr>Name = ''guitar'', Sources = [''disabled''], AudioMode = ''mono'',
                                 Type = ''input'', Delay = 0\<rparr>]\<rparr>"

definition ready_disabled :: PipeWireRecorder where
  "ready_disabled = snd (StartReady example_world cfg_disabled ''song'' NewPipeWireRecorder)"

text \<open>
  A channel that \<open>checkAllSourcesAvailable\<close> counts as valid: it has an enabled source and
  all its enabled sources validate.
\<close>

definition channelValid :: "World \<Rightarrow> Channel \<Rightarrow> bool" where
  "channelValid w ch =
     (hasAnySources (Sources ch)
      \<and> (\<forall>s \<in> set (Sources ch). enabled s \<longrightarrow> ValidatePort w s = None))"

text \<open>
  The invariant that every method of the \<open>Recorder\<close> interface keeps, stronger than the one
  the specification states: an encoder handle exists exactly in the status Recording.
\<close>

definition recorder_inv :: "PipeWireRecorder \<Rightarrow> bool" where
  "recorder_inv r =
     ((status r = StatusRecording \<longrightarrow> ffmpegCmd r \<noteq> None \<and> session r \<noteq> None)
      \<and> (status r \<noteq> StatusRecording \<longrightarrow> ffmpegCmd r = None)
      \<and> (status r = StatusReady \<longrightarrow> session r \<noteq> None))"

text \<open>
  A schedule is a sequence of calls of the interface and of steps of monitors; \<open>run\<close>
  performs it on a new recorder.
\<close>

datatype action =
  CallStartReady World string
  | CallStartRecording World
  | CallStop World
  | CallCancelReady
  | CallGetChannelStatus World
  | MonitorStep World select_case nat

fun perform :: "Config \<Rightarrow> PipeWireRecorder \<Rightarrow> action \<Rightarrow> PipeWireRecorder" where
  "perform cfg r (CallStartReady w songName) = snd (StartReady w cfg songName r)"
| "perform cfg r (CallStartRecording w) = snd (StartRecording w cfg r)"
| "perform cfg r (CallStop w) = snd (Stop w r)"
| "perform cfg r CallCancelReady = snd (CancelReady r)"
| "perform cfg r (CallGetChannelStatus w) = snd (GetChannelStatus w cfg r)"
| "perform cfg r (MonitorStep w ev i) = stepMonitor w cfg ev i r"

definition run :: "Config \<Rightarrow> action list \<Rightarrow> PipeWireRecorder" where
  "run cfg schedule = foldl (perform cfg) NewPipeWireRecorder schedule"

text \<open>
  A schedule in which two monitors are alive at once. \<open>StartReady\<close> is called while \<open>dev:1\<close>
  is listed twice: the status becomes Error and monitor 0 starts. The duplicate goes away
  and \<open>StartReady\<close> is called again: the status becomes Ready and monitor 1 starts. Either
  monitor reaches its \<open>select\<close>, receives a tick, reads the status Ready, finds no duplicate
  and all sources available, sees the status Ready under the lock (l.622) and releases
  the lock (l.623). Monitor 1 calls \<open>StartRecording\<close>, then monitor 0 calls it, and then
  monitor 0 takes its next step. \<open>race_schedule\<close> goes on with one more call of \<open>StartReady\<close>.
\<close>

definition world_duplicate :: World where
  "world_duplicate = example_world\<lparr>pw_link_io := Inr [''dev:1'', ''dev:1'']\<rparr>"

definition race_prefix :: "action list" where
  "race_prefix =
     [CallStartReady world_duplicate ''song'',
      CallStartReady example_world ''song'',
      MonitorStep example_world TickerFired 0,
      MonitorStep example_world TickerFired 0,
      MonitorStep example_world TickerFired 0,
      MonitorStep example_world TickerFired 0,
      MonitorStep example_world TickerFired 1,
      MonitorStep example_world TickerFired 1,
      MonitorStep example_world TickerFired 1,
      MonitorStep example_world TickerFired 1,
      MonitorStep example_world TickerFired 1,
      MonitorStep example_world TickerFired 0,
      MonitorStep example_world TickerFired 0]"

definition race_schedule :: "action list" where
  "race_schedule = race_prefix @ [CallStartReady example_world ''next'']"

text \<open>
  Three recorders on the way: after the first call, after the second call, and after the
  call of \<open>StartRecording\<close> by monitor 1.
\<close>

definition race_error :: PipeWireRecorder where
  "race_error = snd (StartReady world_duplicate example_cfg ''song'' NewPipeWireRecorder)"

definition race_ready :: PipeWireRecorder where
  "race_ready = snd (StartReady example_world example_cfg ''song'' race_error)"

definition race_recording :: PipeWireRecorder where
  "race_recording =
     snd (StartRecording example_world example_cfg (race_ready\<lparr>monitors := [CallStart, CallStart]\<rparr>))"





text \<open>
  For reading a trace of \<open>ConnectPortsWithRetry\<close>: whether an attempt connects, the events
  of an attempt that does not, the checks in a trace, and the error after \<open>n\<close> attempts.
\<close>

definition connects :: "(nat \<Rightarrow> World) \<Rightarrow> string \<Rightarrow> string \<Rightarrow> nat \<Rightarrow> bool" where
  "connects ws sourcePort destPort n =
     (portExists (ws n) sourcePort \<and> connectPorts (ws n) sourcePort destPort = None)"

definition failedAttempt :: "(nat \<Rightarrow> World) \<Rightarrow> string \<Rightarrow> nat \<Rightarrow> nat \<Rightarrow> nat \<Rightarrow> event list" where
  "failedAttempt ws sourcePort maxRetries retryDelay n =
     CheckPort n
       # (if portExists (ws n) sourcePort then [ConnectAttempt n] else [])
       @ (if n < maxRetries then [Sleep retryDelay] else [])"

fun isCheckPort :: "event \<Rightarrow> bool" where
  "isCheckPort (CheckPort n) = True"
| "isCheckPort (ConnectAttempt n) = False"
| "isCheckPort (Sleep t) = False"

definition errRetriesExhausted :: "string \<Rightarrow> string \<Rightarrow> nat \<Rightarrow> string" where
  "errRetriesExhausted sourcePort destPort maxRetries =
     ''failed to connect '' @ sourcePort @ '' to '' @ destPort @ '' after ''
       @ Itoa (int maxRetries) @ '' attempts''"

text \<open>
  Worlds for the retry loop: the source port is absent, or appears at the third attempt.
  The port names of the examples are ASCII text, on which \<open>strings.ToLower\<close> moves the
  letters \<open>A\<close> to \<open>Z\<close> to \<open>a\<close> to \<open>z\<close> and keeps every other byte; \<open>lowerASCII\<close> does
  that, and stands for the library function in the examples only.
\<close>

definition lowerASCIIByte :: "char \<Rightarrow> char" where
  "lowerASCIIByte c =
     (if CHR ''A'' \<le> c \<and> c \<le> CHR ''Z'' then char_of (of_char c + (32::nat)) else c)"

definition lowerASCII :: "string \<Rightarrow> string" where
  "lowerASCII s = map lowerASCIIByte s"

definition world_absent :: World where
  "world_absent = example_world\<lparr>pw_link_io := Inr []\<rparr>"

definition worlds_late :: "nat \<Rightarrow> World" where
  "worlds_late n = (if n < 3 then world_absent else example_world)"

definition worlds_absent :: "nat \<Rightarrow> World" where
  "worlds_absent n = world_absent"

section \<open>Facts about the examples\<close>

lemma example_ready_simps:
  "status example_ready = StatusReady"
  "session example_ready =
     Some \<lparr>SongName = ''song'', StartTime = 7, OutputFile = ''out/song.mkv'',
           ChannelCount = 1, ChannelNames = [''guitar:[dev:1]'']\<rparr>"
  "ffmpegCmd example_ready = None"
  by code_simp+

lemma StartRecording_status:
  "status (snd (StartRecording w cfg r)) =
     (if status r = StatusReady \<and> session r \<noteq> None
      then (if fst (StartRecording w cfg r) = None then StatusRecording else StatusError)
      else status r)"
  by (simp add: StartRecording_def scanChannelStatus_def buildAndStartFFmpeg_def Let_def
      split: option.split sum.split)

lemma StartRecording_ok:
  "status r = StatusReady \<Longrightarrow> session r \<noteq> None \<Longrightarrow> cmd_StdoutPipe w = None \<Longrightarrow>
   cmd_StderrPipe w = None \<Longrightarrow> cmd_Start w = Inr pid \<Longrightarrow> fst (StartRecording w cfg r) = None"
  by (auto simp add: StartRecording_def scanChannelStatus_def buildAndStartFFmpeg_def Let_def)

lemma example_world_simps:
  "cmd_StdoutPipe example_world = None" "cmd_StderrPipe example_world = None"
  "cmd_Start example_world = Inr 42"
  by (simp_all add: example_world_def)

lemma example_recording_simps:
  "fst (StartRecording example_world example_cfg example_ready) = None"
  "status example_recording = StatusRecording"
  by (simp_all add: example_recording_def StartRecording_status example_ready_simps
       StartRecording_ok [where pid = 42] example_world_simps)

section \<open>Prepare rejects invalid calls\<close>

text \<open>
  C7. \<open>StartReady\<close> called in a status other than Standby or Error, or with an empty song
  name, returns an error and leaves the whole recorder, so in particular status and
  session, as it was.
\<close>

theorem StartReady_rejects_unchanged:
  "(status r \<noteq> StatusStandby \<and> status r \<noteq> StatusError) \<or> songName = [] \<Longrightarrow>
     fst (StartReady w cfg songName r) \<noteq> None \<and> snd (StartReady w cfg songName r) = r"
  by (auto simp: StartReady_def)

theorem StartReady_rejects_unchanged_witness:
  "fst (StartReady example_world example_cfg ''again'' example_ready) \<noteq> None
   \<and> snd (StartReady example_world example_cfg ''again'' example_ready) = example_ready
   \<and> fst (StartReady example_world example_cfg [] NewPipeWireRecorder) \<noteq> None
   \<and> snd (StartReady example_world example_cfg [] NewPipeWireRecorder) = NewPipeWireRecorder"
  using StartReady_rejects_unchanged [of example_ready "''again''" example_world example_cfg]
    StartReady_rejects_unchanged [of NewPipeWireRecorder "[]" example_world example_cfg]
  by (simp add: example_ready_simps)

section \<open>StartRecording outside Ready\<close>

text \<open>
  C8. \<open>StartRecording\<close> belongs to the public \<open>Recorder\<close> interface. Called in a status other
  than Ready, or in Ready without a session, it returns an error and leaves the whole
  recorder (status, session, encoder handle) as it was. In the example that follows a
  recording is started and \<open>StartRecording\<close> is called a second time: the second call fails
  and changes nothing.
\<close>

theorem StartRecording_rejects_unchanged:
  "status r \<noteq> StatusReady \<or> session r = None \<Longrightarrow>
     fst (StartRecording w cfg r) \<noteq> None \<and> snd (StartRecording w cfg r) = r"
  by (auto simp: StartRecording_def)

theorem StartRecording_rejects_unchanged_witness:
  "fst (StartRecording example_world example_cfg example_ready) = None
   \<and> status example_recording = StatusRecording
   \<and> fst (StartRecording example_world example_cfg example_recording) \<noteq> None
   \<and> snd (StartRecording example_world example_cfg example_recording) = example_recording"
  using StartRecording_rejects_unchanged [of example_recording example_world example_cfg]
  by (simp add: example_recording_simps)

section \<open>Duplicate detection\<close>

lemma length_findPortDuplicatesInList:
  "length (findPortDuplicatesInList portName allPorts) = count_list allPorts portName"
  by (induction allPorts) (auto simp: findPortDuplicatesInList_def)

lemma errDuplicateSources_neq:
  "errPortNotFound p \<noteq> errDuplicateSources q ds"
  "''failed to check port duplicates: '' @ e \<noteq> errDuplicateSources q ds"
  by (simp_all add: errPortNotFound_def errDuplicateSources_def)

lemma ListPorts_subset:
  "pw_link_io w = Inr lines \<Longrightarrow> ListPorts w = Inr allPorts \<Longrightarrow> set allPorts \<subseteq> set lines"
  by (auto simp: ListPorts_def)

lemma ValidatePort_cases:
  assumes "enabled portName" "ListPorts w = Inr allPorts"
  shows "ValidatePort w portName =
           (if \<not> portExists w portName then Some (errPortNotFound portName)
            else if 1 < count_list allPorts portName
                 then Some (errDuplicateSources portName (findPortDuplicatesInList portName allPorts))
                 else None)"
  using assms
  by (simp add: ValidatePort_def enabled_def findPortDuplicates_def
      findPortDuplicatesInList_def [symmetric] length_findPortDuplicatesInList)

lemma ValidatePort_duplicate_iff:
  assumes "enabled portName" "ListPorts w = Inr allPorts"
  shows "ValidatePort w portName
           = Some (errDuplicateSources portName (findPortDuplicatesInList portName allPorts))
         \<longleftrightarrow> 1 < count_list allPorts portName"
proof -
  obtain lines where l: "pw_link_io w = Inr lines"
    using assms(2) by (auto simp: ListPorts_def split: sum.splits)
  have sub: "set allPorts \<subseteq> set lines" using ListPorts_subset [OF l assms(2)] .
  show ?thesis
  proof (cases "portExists w portName")
    case True
    then show ?thesis
      by (simp add: ValidatePort_cases [OF assms])
  next
    case False
    then have "portName \<notin> set allPorts" using sub l by (auto simp: portExists_def)
    then have "count_list allPorts portName = 0" by simp
    then show ?thesis using False
      by (simp add: ValidatePort_cases [OF assms] errDuplicateSources_neq)
  qed
qed

lemma TestableValidatePort_duplicate_iff:
  assumes "enabled portName"
  shows "TestableValidatePort portName allPorts
           = Some (errDuplicateSources portName (findPortDuplicatesInList portName allPorts))
         \<longleftrightarrow> 1 < count_list allPorts portName"
proof (cases "portName \<in> set allPorts")
  case True
  then show ?thesis using assms
    by (simp add: TestableValidatePort_def enabled_def length_findPortDuplicatesInList Let_def)
next
  case False
  then have "count_list allPorts portName = 0" by simp
  then show ?thesis using assms False
    by (simp add: TestableValidatePort_def enabled_def errDuplicateSources_neq)
qed

text \<open>
  C4. \<open>findPortDuplicatesInList\<close> returns one entry for every exact occurrence of the
  queried name, so their number is the number of occurrences. For a port name proper
  (\<open>enabled\<close>: neither empty nor the marker \<open>disabled\<close>, for which \<open>ValidatePort\<close> returns at
  once), validation fails with the duplicate error exactly when the name occurs more than
  once: in the list handed to the test suite's \<open>TestableValidatePort\<close>, and in the list
  \<open>ListPorts\<close> reads from the routing graph for \<open>ValidatePort\<close>. In the list
  \<open>["A:1", "A:1", "A-2:1"]\<close> the name \<open>A:1\<close> has 2 matches and fails validation, the name
  \<open>A-2:1\<close> has 1 match and validates.
\<close>

theorem duplicate_detection_exact:
  "length (findPortDuplicatesInList portName allPorts) = count_list allPorts portName
   \<and> (enabled portName \<longrightarrow>
        (TestableValidatePort portName allPorts
           = Some (errDuplicateSources portName (findPortDuplicatesInList portName allPorts))
         \<longleftrightarrow> 1 < count_list allPorts portName))
   \<and> (enabled portName \<longrightarrow> ListPorts w = Inr allPorts \<longrightarrow>
        (ValidatePort w portName
           = Some (errDuplicateSources portName (findPortDuplicatesInList portName allPorts))
         \<longleftrightarrow> 1 < count_list allPorts portName))
   \<and> length (findPortDuplicatesInList ''A:1'' [''A:1'', ''A:1'', ''A-2:1'']) = 2
   \<and> TestableValidatePort ''A:1'' [''A:1'', ''A:1'', ''A-2:1'']
       = Some (errDuplicateSources ''A:1'' [''A:1'', ''A:1''])
   \<and> length (findPortDuplicatesInList ''A-2:1'' [''A:1'', ''A:1'', ''A-2:1'']) = 1
   \<and> TestableValidatePort ''A-2:1'' [''A:1'', ''A:1'', ''A-2:1''] = None"
  using ValidatePort_duplicate_iff [of portName w allPorts]
    TestableValidatePort_duplicate_iff [of portName allPorts]
  by (simp add: length_findPortDuplicatesInList)
     (simp add: TestableValidatePort_def findPortDuplicatesInList_def)

theorem duplicate_detection_exact_witness:
  "enabled ''A:1''
   \<and> ListPorts (example_world\<lparr>pw_link_io := Inr [''A:1'', ''A:1'', ''A-2:1'']\<rparr>)
       = Inr [''A:1'', ''A:1'', ''A-2:1'']
   \<and> 1 < count_list [''A:1'', ''A:1'', ''A-2:1''] ''A:1''
   \<and> ValidatePort (example_world\<lparr>pw_link_io := Inr [''A:1'', ''A:1'', ''A-2:1'']\<rparr>) ''A:1''
       = Some (errDuplicateSources ''A:1'' [''A:1'', ''A:1''])
   \<and> enabled ''A-2:1''
   \<and> \<not> 1 < count_list [''A:1'', ''A:1'', ''A-2:1''] ''A-2:1''
   \<and> ValidatePort (example_world\<lparr>pw_link_io := Inr [''A:1'', ''A:1'', ''A-2:1'']\<rparr>) ''A-2:1''
       \<noteq> Some (errDuplicateSources ''A-2:1'' [''A-2:1''])"
  using duplicate_detection_exact [of "''A:1''" "[''A:1'', ''A:1'', ''A-2:1'']"
      "example_world\<lparr>pw_link_io := Inr [''A:1'', ''A:1'', ''A-2:1'']\<rparr>"]
    duplicate_detection_exact [of "''A-2:1''" "[''A:1'', ''A:1'', ''A-2:1'']"
      "example_world\<lparr>pw_link_io := Inr [''A:1'', ''A:1'', ''A-2:1'']\<rparr>"]
  by (simp add: enabled_def ListPorts_def HasPrefix_def findPortDuplicatesInList_def)

section \<open>Output file name\<close>

lemma ReplaceAll_space:
  "ReplaceAll s '' '' ''_'' = map (\<lambda>c. if c = CHR '' '' then CHR ''_'' else c) s"
proof (induction s)
  case Nil
  show ?case by (simp add: ReplaceAll.simps)
next
  case (Cons c s)
  show ?case
  proof (cases "c = CHR '' ''")
    case True
    then show ?thesis using Cons by (subst ReplaceAll.simps) simp
  next
    case False
    then show ?thesis using Cons by (subst ReplaceAll.simps) auto
  qed
qed

lemma keepRune_allowed: "keepRune c \<longleftrightarrow> c \<in> set allowedChars"
  by (cases c) (simp add: keepRune_def allowedChars_def less_eq_char_def)

lemma cleanFileName_sanitize: "cleanFileName name = sanitize name"
proof -
  have "filter keepRune name = filter (\<lambda>c. c \<in> set allowedChars) name"
    by (rule filter_cong) (simp_all add: keepRune_allowed)
  then show ?thesis
    by (simp add: cleanFileName_def sanitize_def ReplaceAll_space)
qed

lemma sanitize_all_removed:
  "\<forall>c \<in> set name. c \<notin> set allowedChars \<Longrightarrow> sanitize name = []"
proof -
  assume "\<forall>c \<in> set name. c \<notin> set allowedChars"
  then have "filter (\<lambda>c. c \<in> set allowedChars) name = []"
    by (simp add: filter_empty_conv)
  then show ?thesis by (simp add: sanitize_def TrimSpace_def)
qed

lemma StartReady_session:
  assumes "fst (StartReady w cfg songName r) = None"
  shows "session (snd (StartReady w cfg songName r)) =
           Some \<lparr>SongName = songName, StartTime = time_Now w,
                 OutputFile = filepath_Join w (Directory (Output cfg)) (cleanFileName songName @ ''.mkv''),
                 ChannelCount = int (length (Channels cfg)),
                 ChannelNames = map channelName (Channels cfg)\<rparr>"
  using assms
  by (auto simp: StartReady_def Let_def startSourceMonitoring_def split: if_splits option.splits)

lemma example_no_duplicates: "\<not> hasDuplicateSources example_world example_cfg"
  by (simp add: hasDuplicateSources_def example_cfg_def example_world_def enabled_def
      ValidatePort_def portExists_def findPortDuplicates_def ListPorts_def HasPrefix_def)

lemma example_StartReady_ok:
  "songName \<noteq> [] \<Longrightarrow> fst (StartReady example_world example_cfg songName NewPipeWireRecorder) = None"
proof -
  assume "songName \<noteq> []"
  moreover have "os_MkdirAll example_world (Directory (Output example_cfg)) = None"
    by (simp add: example_world_def)
  ultimately show ?thesis
    by (simp add: StartReady_def NewPipeWireRecorder_def Let_def example_no_duplicates)
qed

text \<open>
  C10. After a successful \<open>StartReady\<close> the session's output file is the configured
  directory joined with the sanitised song name followed by \<open>.mkv\<close>, and the session keeps
  the song name as given. \<open>cleanFileName\<close> is the sanitising the specification describes.
  A name made only of removed characters gives the file name \<open>.mkv\<close>, and the distinct
  names \<open>my song\<close> and \<open>my_song\<close> give the same file name, hence the same output path.
\<close>

theorem StartReady_output_file:
  "(fst (StartReady w cfg songName r) = None \<longrightarrow>
      map_option OutputFile (session (snd (StartReady w cfg songName r)))
        = Some (filepath_Join w (Directory (Output cfg)) (sanitize songName @ ''.mkv''))
      \<and> map_option SongName (session (snd (StartReady w cfg songName r))) = Some songName)
   \<and> cleanFileName songName = sanitize songName
   \<and> ((\<forall>c \<in> set songName. c \<notin> set allowedChars) \<longrightarrow> sanitize songName @ ''.mkv'' = ''.mkv'')
   \<and> ''my song'' \<noteq> ''my_song'' \<and> sanitize ''my song'' = sanitize ''my_song''"
proof -
  have same: "sanitize ''my song'' = sanitize ''my_song''"
    by (simp add: sanitize_def allowedChars_def TrimSpace_def asciiSpace_def)
  have removed: "(\<forall>c \<in> set songName. c \<notin> set allowedChars) \<longrightarrow> sanitize songName @ ''.mkv'' = ''.mkv''"
    using sanitize_all_removed [of songName] by simp
  have sess: "fst (StartReady w cfg songName r) = None \<longrightarrow>
      map_option OutputFile (session (snd (StartReady w cfg songName r)))
        = Some (filepath_Join w (Directory (Output cfg)) (sanitize songName @ ''.mkv''))
      \<and> map_option SongName (session (snd (StartReady w cfg songName r))) = Some songName"
    by (simp add: StartReady_session cleanFileName_sanitize)
  show ?thesis
    using same removed sess cleanFileName_sanitize [of songName] by simp
qed

theorem StartReady_output_file_witness:
  "fst (StartReady example_world example_cfg ''My Song! #2'' NewPipeWireRecorder) = None
   \<and> map_option OutputFile
        (session (snd (StartReady example_world example_cfg ''My Song! #2'' NewPipeWireRecorder)))
       = Some ''out/My_Song_2.mkv''
   \<and> map_option SongName
        (session (snd (StartReady example_world example_cfg ''My Song! #2'' NewPipeWireRecorder)))
       = Some ''My Song! #2''
   \<and> fst (StartReady example_world example_cfg ''  My Song '' NewPipeWireRecorder) = None
   \<and> map_option OutputFile
        (session (snd (StartReady example_world example_cfg ''  My Song '' NewPipeWireRecorder)))
       = Some ''out/My_Song.mkv''
   \<and> set ''?!'' \<inter> set allowedChars = {}
   \<and> sanitize ''?!'' @ ''.mkv'' = ''.mkv''"
  using StartReady_output_file [of example_world example_cfg "''My Song! #2''" NewPipeWireRecorder]
    StartReady_output_file [of example_world example_cfg "''  My Song ''" NewPipeWireRecorder]
    StartReady_output_file [of example_world example_cfg "''?!''" NewPipeWireRecorder]
    example_StartReady_ok [of "''My Song! #2''"] example_StartReady_ok [of "''  My Song ''"]
  by (simp add: sanitize_def allowedChars_def TrimSpace_def asciiSpace_def)
     (simp add: example_world_def example_cfg_def)

section \<open>Stopping the encoder\<close>

lemma example_ready_chans:
  "sourceMonitorStop example_ready = Some Open"
  "sourceMonitorDone example_ready = Some Open"
  "stopChan example_ready = None"
  "isRecording example_ready = False"
  "monitors example_ready = [AtSelect]"
  by code_simp+

lemma StartRecording_monitors: "monitors (snd (StartRecording w cfg r)) = monitors r"
  by (simp add: StartRecording_def scanChannelStatus_def buildAndStartFFmpeg_def Let_def
      split: option.split sum.split)

lemma StartRecording_fields:
  assumes "fst (StartRecording w cfg r) = None"
  shows "session (snd (StartRecording w cfg r)) = session r"
    and "sourceMonitorStop (snd (StartRecording w cfg r)) = sourceMonitorStop r"
    and "sourceMonitorDone (snd (StartRecording w cfg r)) = sourceMonitorDone r"
    and "stopChan (snd (StartRecording w cfg r)) = Some Open"
    and "isRecording (snd (StartRecording w cfg r)) = True"
    and "\<exists>s pid. session r = Some s \<and> cmd_Start w = Inr pid
           \<and> ffmpegCmd (snd (StartRecording w cfg r))
               = Some \<lparr>Args = ffmpegArgs cfg (Channels cfg) (OutputFile s),
                        Env = os_Environ w @ [''PIPEWIRE_QUANTUM=256/48000'', ''PIPEWIRE_LATENCY=256/48000''],
                        Process = Some pid\<rparr>"
  using assms
  by (auto simp: StartRecording_def scanChannelStatus_def buildAndStartFFmpeg_def Let_def
      split: if_splits option.splits sum.splits)

lemma example_recording_fields:
  "session example_recording = session example_ready"
  "sourceMonitorStop example_recording = Some Open"
  "stopChan example_recording = Some Open"
  "ffmpegCmd example_recording = Some example_cmd"
  using StartRecording_fields [OF example_recording_simps(1)]
  by (simp_all add: example_recording_def example_ready_chans example_ready_simps example_cmd_def)
     (simp add: example_world_def)

lemma example_recording_monitor:
  "sourceMonitorDone example_recording = Some Open"
  "monitors example_recording = [AtSelect]"
  using StartRecording_fields [OF example_recording_simps(1)]
  by (simp_all add: example_recording_def example_ready_chans StartRecording_monitors)

lemma stopFFmpeg_clears: "ffmpegCmd (snd (snd (stopFFmpeg w r))) = None"
  by (simp add: stopFFmpeg_def Let_def split: option.split wait_outcome.split)

lemma stopFFmpeg_success_iff:
  "fst (stopFFmpeg w r) = None \<longleftrightarrow>
     ffmpegCmd r = None \<or> cmd_Wait w = TimedOut \<or> cmd_Wait w = Exited None
     \<or> (\<exists>err. cmd_Wait w = Exited (Some err) \<and> cleanInterrupt err)"
  by (auto simp: stopFFmpeg_def Let_def split: option.split wait_outcome.split)

lemma stopFFmpeg_signals:
  "ffmpegCmd r = Some cmd \<Longrightarrow>
     fst (snd (stopFFmpeg w r))
       = interruptSignals w cmd @ (if cmd_Wait w = TimedOut then killSignals cmd else [])"
  by (simp add: stopFFmpeg_def Let_def split: option.split wait_outcome.split)

lemma stopFFmpeg_error:
  "ffmpegCmd r = Some cmd \<Longrightarrow> cmd_Wait w = Exited (Some err) \<Longrightarrow> \<not> cleanInterrupt err \<Longrightarrow>
     fst (stopFFmpeg w r) = Some (''FFmpeg process failed: '' @ wait_error_text err)"
  by (simp add: stopFFmpeg_def Let_def)

text \<open>
  C2, as stated, fails: when the encoder exits with status 1 after the interrupt,
  \<open>stopFFmpeg\<close> returns an error, and it has sent no kill signal.
\<close>

theorem stopFFmpeg_exit1_counterexample:
  "fst (stopFFmpeg world_exit1 example_recording) = Some ''FFmpeg process failed: exit status 1''
   \<and> fst (snd (stopFFmpeg world_exit1 example_recording)) = [SIGINT]"
  by (simp add: stopFFmpeg_def example_recording_fields Let_def world_exit1_def
      interruptSignals_def example_cmd_def)
     (simp add: example_world_def)

text \<open>
  C2, amended. \<open>stopFFmpeg\<close> sends an interrupt (followed by a kill when the interrupt
  cannot be delivered) and waits up to 5 seconds. It returns success exactly when there
  is no encoder handle, when the wait times out (it then force-kills), when the process
  exits without error, or when it exits with code 255 or in the state \<open>signal: interrupt\<close>
  or \<open>signal: killed\<close>. For every other exit it returns the error
  \<open>FFmpeg process failed: ...\<close>. After the wait it sends a kill only on a timeout. The
  encoder handle is cleared in every case.
\<close>

theorem stopFFmpeg_outcomes:
  "(fst (stopFFmpeg w r) = None \<longleftrightarrow>
      ffmpegCmd r = None \<or> cmd_Wait w = TimedOut \<or> cmd_Wait w = Exited None
      \<or> (\<exists>err. cmd_Wait w = Exited (Some err) \<and> cleanInterrupt err))
   \<and> (\<forall>cmd err. ffmpegCmd r = Some cmd \<and> cmd_Wait w = Exited (Some err) \<and> \<not> cleanInterrupt err \<longrightarrow>
         fst (stopFFmpeg w r) = Some (''FFmpeg process failed: '' @ wait_error_text err))
   \<and> (\<forall>cmd. ffmpegCmd r = Some cmd \<longrightarrow>
         fst (snd (stopFFmpeg w r))
           = interruptSignals w cmd @ (if cmd_Wait w = TimedOut then killSignals cmd else []))
   \<and> (\<forall>code state. cleanInterrupt (ExitError code state) \<longleftrightarrow>
         code = 255 \<or> state = Some ''signal: interrupt'' \<or> state = Some ''signal: killed'')
   \<and> (\<forall>msg. \<not> cleanInterrupt (OtherError msg))
   \<and> ffmpegCmd (snd (snd (stopFFmpeg w r))) = None"
  using stopFFmpeg_success_iff [of w r] stopFFmpeg_clears [of w r]
  by (auto simp: stopFFmpeg_signals stopFFmpeg_error split: option.splits)

theorem stopFFmpeg_outcomes_witness:
  "ffmpegCmd example_recording = Some example_cmd
   \<and> cmd_Wait world_timeout = TimedOut
   \<and> fst (stopFFmpeg world_timeout example_recording) = None
   \<and> fst (snd (stopFFmpeg world_timeout example_recording)) = [SIGINT, SIGKILL]
   \<and> cmd_Wait world_exit1 = Exited (Some (ExitError 1 (Some ''exit status 1'')))
   \<and> \<not> cleanInterrupt (ExitError 1 (Some ''exit status 1''))
   \<and> fst (stopFFmpeg world_exit1 example_recording) = Some ''FFmpeg process failed: exit status 1''
   \<and> fst (snd (stopFFmpeg world_exit1 example_recording)) = [SIGINT]
   \<and> cleanInterrupt (ExitError 255 None)
   \<and> ffmpegCmd (snd (snd (stopFFmpeg world_exit1 example_recording))) = None"
  using stopFFmpeg_outcomes [of world_timeout example_recording]
    stopFFmpeg_outcomes [of world_exit1 example_recording]
  by (simp add: example_recording_fields world_timeout_def world_exit1_def
      interruptSignals_def killSignals_def example_cmd_def)
     (simp add: example_world_def)

section \<open>Stop\<close>

lemma Stop_not_recording:
  "status r \<noteq> StatusRecording \<Longrightarrow> Stop w r = (Returned (Some ''no recording in progress''), r)"
  by (simp add: Stop_def)

lemma stopSourceMonitoring_fields:
  assumes "stopSourceMonitoring r = Stopped r1 \<or> stopSourceMonitoring r = WaitsForever r1"
  shows "status r1 = status r" "session r1 = session r" "ffmpegCmd r1 = ffmpegCmd r"
    "stopChan r1 = stopChan r" "channelStatusCache r1 = channelStatusCache r"
  using assms
  by (auto simp: stopSourceMonitoring_def Let_def split: option.splits chan.splits if_splits)

text \<open>
  \<open>stopSourceMonitoring\<close> returns when the stop channel is not closed yet and the last
  monitor has returned already or waits in its \<open>select\<close>.
\<close>

lemma stopSourceMonitoring_Stopped:
  assumes "sourceMonitorStop r \<noteq> Some Closed"
    and "sourceMonitorDone r \<noteq> Some Open \<or> (monitors r \<noteq> [] \<and> last (monitors r) = AtSelect)"
  shows "\<exists>r1. stopSourceMonitoring r = Stopped r1"
  using assms
  by (auto simp: stopSourceMonitoring_def Let_def split: option.splits chan.splits)

text \<open>
  It never returns when the stop channel is open, the done channel is open, and the last
  monitor stands anywhere but in its \<open>select\<close>: then \<open>Stop\<close> and \<open>CancelReady\<close> never return
  either.
\<close>

lemma stopSourceMonitoring_WaitsForever:
  assumes "sourceMonitorStop r = Some Open" "sourceMonitorDone r = Some Open"
    "monitors r = [] \<or> last (monitors r) \<noteq> AtSelect"
  shows "stopSourceMonitoring r = WaitsForever (r\<lparr>sourceMonitorStop := Some Closed\<rparr>)"
  using assms by (auto simp: stopSourceMonitoring_def Let_def)

lemma CancelReady_NeverReturns:
  assumes "status r = StatusReady" "sourceMonitorStop r = Some Open"
    "sourceMonitorDone r = Some Open" "monitors r = [] \<or> last (monitors r) \<noteq> AtSelect"
  shows "fst (CancelReady r) = NeverReturns"
  using assms(1) stopSourceMonitoring_WaitsForever [OF assms(2,3,4)]
  by (simp add: CancelReady_def)

lemma Stop_NeverReturns:
  assumes "status r = StatusRecording" "sourceMonitorStop r = Some Open"
    "sourceMonitorDone r = Some Open" "monitors r = [] \<or> last (monitors r) \<noteq> AtSelect"
  shows "fst (Stop w r) = NeverReturns"
  using assms(1) stopSourceMonitoring_WaitsForever [OF assms(2,3,4)]
  by (simp add: Stop_def)

lemma stopFFmpeg_fields:
  "session (snd (snd (stopFFmpeg w r))) = session r"
  "status (snd (snd (stopFFmpeg w r))) = status r"
  "channelStatusCache (snd (snd (stopFFmpeg w r))) = channelStatusCache r"
  by (simp_all add: stopFFmpeg_def Let_def split: option.split wait_outcome.split)

lemma validateOutputFile_ok:
  "validateOutputFile w r = None \<longleftrightarrow>
     (\<exists>s sz. session r = Some s \<and> os_Stat w (OutputFile s) = Some sz \<and> 1024 \<le> sz)"
  by (auto simp: validateOutputFile_def split: option.splits)

lemma validateOutputFile_session:
  "session r' = session r \<Longrightarrow> validateOutputFile w r' = validateOutputFile w r"
  by (simp add: validateOutputFile_def)

lemma Stop_session: "session (snd (Stop w r)) = session r"
proof (cases "stopSourceMonitoring r")
  case ClosePanics
  then show ?thesis by (simp add: Stop_def)
next
  case (WaitsForever r1)
  then show ?thesis
    using stopSourceMonitoring_fields(2) [of r r1] by (simp add: Stop_def)
next
  case (Stopped r1)
  then show ?thesis
    using stopSourceMonitoring_fields(2) [of r r1]
    by (simp add: Stop_def Let_def split_beta stopFFmpeg_fields split: option.split)
qed

text \<open>
  What a call of \<open>Stop\<close> that returns leaves behind: success needs the status Recording and
  an output file of at least 1024 bytes and ends in Standby; an error from the status
  Recording ends in Error.
\<close>

lemma Stop_success:
  assumes "fst (Stop w r) = Returned None"
  shows "status r = StatusRecording \<and> status (snd (Stop w r)) = StatusStandby
         \<and> validateOutputFile w r = None"
proof -
  have rec: "status r = StatusRecording"
    using assms by (auto simp: Stop_def split: if_splits)
  obtain r1 where r1: "stopSourceMonitoring r = Stopped r1"
    using assms rec by (auto simp: Stop_def split: stopped.splits)
  define r3 where "r3 = r1\<lparr>isRecording := False, stopChan := map_option (\<lambda>c. Closed) (stopChan r1)\<rparr>"
  have s3: "session (snd (snd (stopFFmpeg w r3))) = session r"
    using stopSourceMonitoring_fields(2) [of r r1] r1 by (simp add: stopFFmpeg_fields r3_def)
  have "status (snd (Stop w r)) = StatusStandby
        \<and> validateOutputFile w (snd (snd (stopFFmpeg w r3))) = None"
    using assms rec r1
    by (auto simp: Stop_def Let_def r3_def split_beta split: if_splits option.splits)
  then show ?thesis
    using rec validateOutputFile_session [OF s3, of w] by simp
qed

lemma Stop_error:
  assumes "status r = StatusRecording" "fst (Stop w r) = Returned (Some err)"
  shows "status (snd (Stop w r)) = StatusError"
  using assms
  by (auto simp: Stop_def Let_def split_beta split: if_splits option.splits stopped.splits)

lemma Stop_ok:
  assumes "status r = StatusRecording" "sourceMonitorStop r \<noteq> Some Closed"
    "stopChan r \<noteq> Some Closed" "cmd_Wait w = Exited None" "validateOutputFile w r = None"
    "sourceMonitorDone r \<noteq> Some Open \<or> (monitors r \<noteq> [] \<and> last (monitors r) = AtSelect)"
  shows "fst (Stop w r) = Returned None"
proof -
  obtain r1 where r1: "stopSourceMonitoring r = Stopped r1"
    using stopSourceMonitoring_Stopped [OF assms(2,6)] by blast
  note f = stopSourceMonitoring_fields [OF disjI1 [OF r1]]
  define r3 where "r3 = r1\<lparr>isRecording := False, stopChan := map_option (\<lambda>c. Closed) (stopChan r1)\<rparr>"
  have a: "fst (stopFFmpeg w r3) = None"
    using assms(4) by (simp add: stopFFmpeg_success_iff)
  have "session (snd (snd (stopFFmpeg w r3))) = session r"
    by (simp add: stopFFmpeg_fields r3_def f)
  then have b: "validateOutputFile w (snd (snd (stopFFmpeg w r3))) = None"
    using assms(5) validateOutputFile_session by metis
  show ?thesis
    using assms(1,3) a b
    by (simp add: Stop_def r1 Let_def split_beta f r3_def)
qed

lemma example_validate: "validateOutputFile example_world example_recording = None"
  by (simp add: validateOutputFile_ok example_recording_fields example_ready_simps)
     (simp add: example_world_def)

text \<open>
  C1. \<open>Stop\<close> is accepted only in the status Recording: in any other status it returns an
  error and changes nothing (\<open>Stop_not_recording\<close>); a successful \<open>Stop\<close> ends in Standby with
  an output file of at least 1024 bytes (\<open>Stop_success\<close>); an error return from Recording
  ends in Error (\<open>Stop_error\<close>). A successful \<open>Stop\<close> should also clear the session, and
  there the code departs: for a recording recorder whose encoder exits cleanly and whose
  output file has 2048 bytes, \<open>Stop\<close> returns success and the status becomes Standby, yet
  the session is still there (\<open>Stop\<close> never changes it, \<open>Stop_session\<close>), where
  \<open>CancelReady\<close> and every monitor transition into Standby clear it.
\<close>

theorem Stop_success_keeps_session:
  "fst (Stop example_world example_recording) = Returned None
   \<and> status (snd (Stop example_world example_recording)) = StatusStandby
   \<and> session (snd (Stop example_world example_recording))
       = Some \<lparr>SongName = ''song'', StartTime = 7, OutputFile = ''out/song.mkv'',
               ChannelCount = 1, ChannelNames = [''guitar:[dev:1]'']\<rparr>"
proof -
  have "cmd_Wait example_world = Exited None"
    by (simp add: example_world_def)
  then have ok: "fst (Stop example_world example_recording) = Returned None"
    by (intro Stop_ok)
       (simp_all add: example_recording_simps example_recording_fields example_validate
          example_recording_monitor)
  show ?thesis
    using ok Stop_success [OF ok]
    by (simp add: Stop_session example_recording_fields example_ready_simps)
qed

section \<open>Auto-promotion\<close>

lemma hasAnySources_iff: "hasAnySources sources \<longleftrightarrow> (\<exists>s \<in> set sources. enabled s)"
  by (induction sources) auto

lemma sourcesHaveDuplicate_iff:
  "sourcesHaveDuplicate w sources \<longleftrightarrow>
     (\<exists>s \<in> set sources. enabled s \<and> (\<exists>err. ValidatePort w s = Some err \<and> isDuplicateError err))"
  by (induction sources) (auto split: option.splits)

lemma channelsHaveDuplicate_iff:
  "channelsHaveDuplicate w channels \<longleftrightarrow>
     (\<exists>ch \<in> set channels. sourcesHaveDuplicate w (Sources ch))"
  by (induction channels) auto

lemma checkSources_eq:
  "checkSources w sources (hasAll, hasAny, n, d) =
     (hasAll \<and> (\<forall>s \<in> set sources. enabled s \<longrightarrow> ValidatePort w s = None),
      hasAny \<or> hasAnySources sources,
      n + int (length (filter enabled sources)),
      d \<or> sourcesHaveDuplicate w sources)"
  by (induction sources arbitrary: hasAll hasAny n d) (auto split: option.splits)

lemma checkChannels_eq:
  "checkChannels w channels (valid, n, d) =
     (valid + int (length (filter (channelValid w) channels)),
      n + int (length (filter enabled (concat (map Sources channels)))),
      d \<or> channelsHaveDuplicate w channels)"
  by (induction channels arbitrary: valid n d)
     (auto simp: checkSources_eq channelValid_def)

lemma countChannelsWithSources_eq:
  "countChannelsWithSources channels n
     = n + int (length (filter (\<lambda>ch. hasAnySources (Sources ch)) channels))"
  by (induction channels arbitrary: n) auto

lemma filter_conj_length_eq:
  "length (filter (\<lambda>x. P x \<and> Q x) xs) = length (filter P xs) \<longleftrightarrow> (\<forall>x \<in> set xs. P x \<longrightarrow> Q x)"
proof (induction xs)
  case Nil
  show ?case by simp
next
  case (Cons x xs)
  have le: "length (filter (\<lambda>x. P x \<and> Q x) xs) \<le> length (filter P xs)"
    by (induction xs) auto
  show ?case using Cons le by auto
qed

lemma checkAllSourcesAvailable_iff:
  "checkAllSourcesAvailable w cfg \<longleftrightarrow>
     (\<exists>ch \<in> set (Channels cfg). \<exists>s \<in> set (Sources ch). enabled s)
     \<and> (\<forall>ch \<in> set (Channels cfg). \<forall>s \<in> set (Sources ch). enabled s \<longrightarrow> ValidatePort w s = None)"
  (is "?L \<longleftrightarrow> ?A \<and> ?B")
proof -
  let ?cs = "Channels cfg"
  let ?any = "\<lambda>ch. hasAnySources (Sources ch)"
  let ?all = "\<lambda>ch. \<forall>s \<in> set (Sources ch). enabled s \<longrightarrow> ValidatePort w s = None"
  have valid: "filter (channelValid w) ?cs = filter (\<lambda>ch. ?any ch \<and> ?all ch) ?cs"
    by (rule filter_cong) (simp_all add: channelValid_def)
  have L: "?L \<longleftrightarrow> \<not> channelsHaveDuplicate w ?cs
            \<and> 0 < length (filter (channelValid w) ?cs)
            \<and> length (filter (channelValid w) ?cs) = length (filter ?any ?cs)"
    by (simp add: checkAllSourcesAvailable_def checkChannels_eq countChannelsWithSources_eq)
  have eq: "length (filter (channelValid w) ?cs) = length (filter ?any ?cs)
              \<longleftrightarrow> (\<forall>ch \<in> set ?cs. ?any ch \<longrightarrow> ?all ch)"
    unfolding valid by (rule filter_conj_length_eq)
  have B: "(\<forall>ch \<in> set ?cs. ?any ch \<longrightarrow> ?all ch) \<longleftrightarrow> ?B"
    by (auto simp: hasAnySources_iff)
  have A: "0 < length (filter ?any ?cs) \<longleftrightarrow> ?A"
    by (auto simp: hasAnySources_iff length_greater_0_conv filter_empty_conv simp del: length_0_conv)
  have nodup: "?B \<Longrightarrow> \<not> channelsHaveDuplicate w ?cs"
    by (auto simp: channelsHaveDuplicate_iff sourcesHaveDuplicate_iff)
  show ?thesis
    using L eq B A nodup by auto
qed

lemma hasDuplicateSources_blocks:
  "hasDuplicateSources w cfg \<Longrightarrow> \<not> checkAllSourcesAvailable w cfg"
  by (auto simp: checkAllSourcesAvailable_iff hasDuplicateSources_def
      channelsHaveDuplicate_iff sourcesHaveDuplicate_iff)

lemma StartRecording_None_status:
  "fst (StartRecording w cfg r) = None \<Longrightarrow> status (snd (StartRecording w cfg r)) = StatusRecording"
  by (auto simp: StartRecording_def scanChannelStatus_def buildAndStartFFmpeg_def Let_def
      split: if_splits option.splits sum.splits)

text \<open>The steps of a monitor that reach the test of l.621-622 and the call of l.626.\<close>

lemma monitorStep_CallStart_iff:
  "fst (monitorStep w cfg ev pc r) = CallStart \<longleftrightarrow> pc = Checking \<and> status r = StatusReady"
  by (cases pc)
     (auto simp: Let_def split_beta afterStateHandling_def
       split: select_case.splits option.splits)

lemma monitorStep_Checking_iff:
  "fst (monitorStep w cfg ev pc r) = Checking \<longleftrightarrow>
     checkAllSourcesAvailable w cfg
     \<and> (pc = ToStandby False
        \<or> (pc = Ticked \<and> \<not> (status r = StatusReady \<and> hasDuplicateSources w cfg)
              \<and> \<not> (status r = StatusError \<and> \<not> hasDuplicateSources w cfg)))"
  by (cases pc)
     (auto simp: Let_def split_beta afterStateHandling_def
       split: select_case.splits option.splits)

text \<open>An uninterrupted tick, case by case.\<close>

lemma uninterruptedTick_duplicate:
  assumes "status r = StatusReady" "hasDuplicateSources w cfg"
  shows "uninterruptedTick w cfg r
           = ([ToStandby True, HasReturned], r\<lparr>status := StatusStandby, session := None\<rparr>)"
  using assms by (simp add: uninterruptedTick_def eval_nat_numeral Let_def)

lemma uninterruptedTick_recover:
  assumes "status r = StatusError" "\<not> hasDuplicateSources w cfg"
  shows "uninterruptedTick w cfg r
           = (if checkAllSourcesAvailable w cfg
              then [ToStandby False, Checking, AtSelect] else [ToStandby False, AtSelect],
              r\<lparr>status := StatusStandby, session := None\<rparr>)"
  using assms by (simp add: uninterruptedTick_def eval_nat_numeral Let_def afterStateHandling_def)

lemma uninterruptedTick_unavailable:
  assumes "\<not> (status r = StatusReady \<and> hasDuplicateSources w cfg)"
    "\<not> (status r = StatusError \<and> \<not> hasDuplicateSources w cfg)"
    "\<not> checkAllSourcesAvailable w cfg"
  shows "uninterruptedTick w cfg r = ([AtSelect], r)"
  using assms by (auto simp: uninterruptedTick_def eval_nat_numeral Let_def afterStateHandling_def)

lemma uninterruptedTick_not_ready:
  assumes "status r \<noteq> StatusReady" "status r \<noteq> StatusError"
    "checkAllSourcesAvailable w cfg"
  shows "uninterruptedTick w cfg r = ([Checking, AtSelect], r)"
  using assms by (auto simp: uninterruptedTick_def eval_nat_numeral Let_def afterStateHandling_def)

lemma uninterruptedTick_start:
  assumes "status r = StatusReady" "checkAllSourcesAvailable w cfg"
  shows "uninterruptedTick w cfg r
           = (if fst (StartRecording w cfg r) = None
              then ([Checking, CallStart, HasReturned], snd (StartRecording w cfg r))
              else ([Checking, CallStart, StartFailed, HasReturned],
                    (snd (StartRecording w cfg r))\<lparr>status := StatusError\<rparr>))"
proof -
  have "\<not> hasDuplicateSources w cfg"
    using assms(2) hasDuplicateSources_blocks by blast
  then show ?thesis
    using assms
    by (auto simp: uninterruptedTick_def eval_nat_numeral Let_def afterStateHandling_def
        split_beta split: option.splits)
qed

lemma uninterruptedTick_CallStart_iff:
  "CallStart \<in> set (fst (uninterruptedTick w cfg r)) \<longleftrightarrow>
     status r = StatusReady \<and> checkAllSourcesAvailable w cfg"
proof (cases "status r = StatusReady")
  case True
  show ?thesis
  proof (cases "checkAllSourcesAvailable w cfg")
    case True
    then show ?thesis
      using \<open>status r = StatusReady\<close> by (simp add: uninterruptedTick_start)
  next
    case False
    show ?thesis
    proof (cases "hasDuplicateSources w cfg")
      case True
      then show ?thesis
        using \<open>status r = StatusReady\<close> False by (simp add: uninterruptedTick_duplicate)
    next
      case nd: False
      then show ?thesis
        using \<open>status r = StatusReady\<close> False by (simp add: uninterruptedTick_unavailable)
    qed
  qed
next
  case nr: False
  show ?thesis
  proof (cases "status r = StatusError \<and> \<not> hasDuplicateSources w cfg")
    case True
    then show ?thesis using nr by (simp add: uninterruptedTick_recover)
  next
    case False
    then show ?thesis
      using nr
      by (cases "checkAllSourcesAvailable w cfg")
         (auto simp: uninterruptedTick_def eval_nat_numeral Let_def afterStateHandling_def)
  qed
qed

lemma uninterruptedTick_ends:
  "last (fst (uninterruptedTick w cfg r)) = AtSelect
   \<or> last (fst (uninterruptedTick w cfg r)) = HasReturned"
proof (cases "status r = StatusReady")
  case True
  show ?thesis
  proof (cases "checkAllSourcesAvailable w cfg")
    case True
    then show ?thesis
      using \<open>status r = StatusReady\<close> by (simp add: uninterruptedTick_start)
  next
    case False
    then show ?thesis
      using \<open>status r = StatusReady\<close>
      by (cases "hasDuplicateSources w cfg")
         (simp_all add: uninterruptedTick_duplicate uninterruptedTick_unavailable)
  qed
next
  case nr: False
  show ?thesis
  proof (cases "status r = StatusError \<and> \<not> hasDuplicateSources w cfg")
    case True
    then show ?thesis using nr by (simp add: uninterruptedTick_recover)
  next
    case False
    then show ?thesis
      using nr
      by (cases "checkAllSourcesAvailable w cfg")
         (auto simp: uninterruptedTick_def eval_nat_numeral Let_def afterStateHandling_def)
  qed
qed

text \<open>
  C3, as stated, fails: with a single channel whose source is disabled, no channel
  declares an enabled source and nothing is duplicated, so the stated condition holds;
  yet a tick of the monitor goes back to its \<open>select\<close> without calling \<open>StartRecording\<close>,
  and the recorder stays as it was.
\<close>

theorem auto_promotion_counterexample:
  "status ready_disabled = StatusReady
   \<and> countChannelsWithSources (Channels cfg_disabled) 0 = 0
   \<and> \<not> hasDuplicateSources example_world cfg_disabled
   \<and> \<not> checkAllSourcesAvailable example_world cfg_disabled
   \<and> uninterruptedTick example_world cfg_disabled ready_disabled = ([AtSelect], ready_disabled)"
proof -
  have nd: "\<not> hasDuplicateSources example_world cfg_disabled"
    by (simp add: hasDuplicateSources_def cfg_disabled_def enabled_def)
  have nc: "\<not> checkAllSourcesAvailable example_world cfg_disabled"
    by (simp add: checkAllSourcesAvailable_def cfg_disabled_def enabled_def)
  have "os_MkdirAll example_world (Directory (Output cfg_disabled)) = None"
    by (simp add: example_world_def)
  then have st: "status ready_disabled = StatusReady"
    using nd
    by (simp add: ready_disabled_def StartReady_def NewPipeWireRecorder_def Let_def
        startSourceMonitoring_def)
  have "uninterruptedTick example_world cfg_disabled ready_disabled = ([AtSelect], ready_disabled)"
    using nd nc st by (simp add: uninterruptedTick_unavailable)
  then show ?thesis
    using nd nc st by (simp add: cfg_disabled_def enabled_def)
qed

text \<open>
  C3, amended. In a tick of the monitor that no other goroutine interrupts, auto-promotion
  is triggered, that is, the monitor calls \<open>StartRecording\<close>, exactly when the status is
  Ready, at least one channel declares an enabled (non-empty, non-disabled) source, and
  every enabled source of every channel validates, that is, is present in the routing
  graph and not duplicated. So a channel without enabled sources does not block the
  promotion as long as another channel has one, a channel with one source connectable and
  one not blocks it, and so does any detected duplicate. Triggered, the tick leaves the
  recorder in Recording when \<open>StartRecording\<close> succeeds and in Error when it fails; the tick
  always comes to its end. Under any interleaving, a step of a monitor leads to the call
  of \<open>StartRecording\<close> only from the test under the lock, when the status is Ready there, and
  it leads to that test only when the same condition on the sources holds in that step.
\<close>

theorem auto_promotion_condition:
  "(CallStart \<in> set (fst (uninterruptedTick w cfg r)) \<longleftrightarrow>
      status r = StatusReady
      \<and> (\<exists>ch \<in> set (Channels cfg). \<exists>s \<in> set (Sources ch). enabled s)
      \<and> (\<forall>ch \<in> set (Channels cfg). \<forall>s \<in> set (Sources ch).
            enabled s \<longrightarrow> ValidatePort w s = None))
   \<and> (hasDuplicateSources w cfg \<longrightarrow> CallStart \<notin> set (fst (uninterruptedTick w cfg r)))
   \<and> (CallStart \<in> set (fst (uninterruptedTick w cfg r)) \<longrightarrow>
        status (snd (uninterruptedTick w cfg r))
          = (if fst (StartRecording w cfg r) = None then StatusRecording else StatusError))
   \<and> (last (fst (uninterruptedTick w cfg r)) = AtSelect
        \<or> last (fst (uninterruptedTick w cfg r)) = HasReturned)
   \<and> (fst (monitorStep w cfg ev pc r) = CallStart \<longleftrightarrow> pc = Checking \<and> status r = StatusReady)
   \<and> (fst (monitorStep w cfg ev pc r) = Checking \<longrightarrow>
        (pc = Ticked \<or> pc = ToStandby False)
        \<and> (\<exists>ch \<in> set (Channels cfg). \<exists>s \<in> set (Sources ch). enabled s)
        \<and> (\<forall>ch \<in> set (Channels cfg). \<forall>s \<in> set (Sources ch).
              enabled s \<longrightarrow> ValidatePort w s = None))"
proof -
  have a: "CallStart \<in> set (fst (uninterruptedTick w cfg r)) \<longleftrightarrow>
      status r = StatusReady
      \<and> (\<exists>ch \<in> set (Channels cfg). \<exists>s \<in> set (Sources ch). enabled s)
      \<and> (\<forall>ch \<in> set (Channels cfg). \<forall>s \<in> set (Sources ch).
            enabled s \<longrightarrow> ValidatePort w s = None)"
    by (simp only: uninterruptedTick_CallStart_iff checkAllSourcesAvailable_iff)
  have b: "hasDuplicateSources w cfg \<longrightarrow> CallStart \<notin> set (fst (uninterruptedTick w cfg r))"
    using uninterruptedTick_CallStart_iff [of w cfg r] hasDuplicateSources_blocks [of w cfg]
    by blast
  have c: "CallStart \<in> set (fst (uninterruptedTick w cfg r)) \<longrightarrow>
        status (snd (uninterruptedTick w cfg r))
          = (if fst (StartRecording w cfg r) = None then StatusRecording else StatusError)"
    by (simp add: uninterruptedTick_CallStart_iff uninterruptedTick_start
        StartRecording_None_status)
  have d: "last (fst (uninterruptedTick w cfg r)) = AtSelect
        \<or> last (fst (uninterruptedTick w cfg r)) = HasReturned"
    by (rule uninterruptedTick_ends)
  have e: "fst (monitorStep w cfg ev pc r) = CallStart \<longleftrightarrow> pc = Checking \<and> status r = StatusReady"
    by (rule monitorStep_CallStart_iff)
  have f: "fst (monitorStep w cfg ev pc r) = Checking \<longrightarrow>
        (pc = Ticked \<or> pc = ToStandby False)
        \<and> (\<exists>ch \<in> set (Channels cfg). \<exists>s \<in> set (Sources ch). enabled s)
        \<and> (\<forall>ch \<in> set (Channels cfg). \<forall>s \<in> set (Sources ch).
              enabled s \<longrightarrow> ValidatePort w s = None)"
    using monitorStep_Checking_iff [of w cfg ev pc r] checkAllSourcesAvailable_iff [of w cfg]
    by blast
  show ?thesis using a b c d e f by (intro conjI)
qed

theorem auto_promotion_condition_witness:
  "status example_ready = StatusReady
   \<and> map Sources (Channels example_cfg) = [[''dev:1'']]
   \<and> enabled ''dev:1''
   \<and> ValidatePort example_world ''dev:1'' = None
   \<and> fst (uninterruptedTick example_world example_cfg example_ready)
       = [Checking, CallStart, HasReturned]
   \<and> status (snd (uninterruptedTick example_world example_cfg example_ready)) = StatusRecording
   \<and> fst (monitorStep example_world example_cfg TickerFired Ticked example_ready) = Checking
   \<and> fst (monitorStep example_world example_cfg TickerFired Checking example_ready) = CallStart
   \<and> hasDuplicateSources (example_world\<lparr>pw_link_io := Inr [''dev:1'', ''dev:1'']\<rparr>) example_cfg
   \<and> CallStart \<notin> set (fst (uninterruptedTick
         (example_world\<lparr>pw_link_io := Inr [''dev:1'', ''dev:1'']\<rparr>) example_cfg example_ready))"
proof -
  have v: "ValidatePort example_world ''dev:1'' = None"
    by (simp add: example_world_def ValidatePort_def portExists_def findPortDuplicates_def
        ListPorts_def HasPrefix_def)
  have d: "hasDuplicateSources (example_world\<lparr>pw_link_io := Inr [''dev:1'', ''dev:1'']\<rparr>) example_cfg"
    by (simp add: hasDuplicateSources_def example_cfg_def enabled_def ValidatePort_def
        portExists_def findPortDuplicates_def ListPorts_def HasPrefix_def isDuplicateError_def
        errDuplicateSources_def)
  have s: "map Sources (Channels example_cfg) = [[''dev:1'']]" "enabled ''dev:1''"
    by (simp_all add: example_cfg_def enabled_def)
  have a: "checkAllSourcesAvailable example_world example_cfg"
    using v by (simp add: checkAllSourcesAvailable_iff) (simp add: example_cfg_def enabled_def)
  have t: "fst (uninterruptedTick example_world example_cfg example_ready)
             = [Checking, CallStart, HasReturned]"
    using a by (simp add: uninterruptedTick_start example_ready_simps example_recording_simps)
  have g: "fst (monitorStep example_world example_cfg TickerFired Ticked example_ready) = Checking"
    using a hasDuplicateSources_blocks [of example_world example_cfg]
    by (auto simp: Let_def afterStateHandling_def example_ready_simps)
  have q: "status (snd (uninterruptedTick example_world example_cfg example_ready)) = StatusRecording"
    using auto_promotion_condition
      [where w = example_world and cfg = example_cfg and r = example_ready,
        THEN conjunct2, THEN conjunct2, THEN conjunct1] t
    by (simp add: example_recording_simps)
  have n: "CallStart \<notin> set (fst (uninterruptedTick
         (example_world\<lparr>pw_link_io := Inr [''dev:1'', ''dev:1'']\<rparr>) example_cfg example_ready))"
    using auto_promotion_condition
      [where w = "example_world\<lparr>pw_link_io := Inr [''dev:1'', ''dev:1'']\<rparr>"
         and cfg = example_cfg and r = example_ready, THEN conjunct2, THEN conjunct1] d
    by simp
  have c: "fst (monitorStep example_world example_cfg TickerFired Checking example_ready) = CallStart"
    by (simp add: example_ready_simps)
  show ?thesis
    using v d s t g q n c by (simp add: example_ready_simps)
qed

section \<open>The state-machine invariant\<close>

text \<open>
  Every method of the interface keeps \<open>recorder_inv\<close>, and so does every step of a monitor
  but two: the write of Standby (l.603-604, l.614-615) and the write of Error (l.629), which
  keep it only if the status is not Recording when they happen.
\<close>

lemma inv_New: "recorder_inv NewPipeWireRecorder"
  by (simp add: recorder_inv_def NewPipeWireRecorder_def)

lemma inv_StartReady: "recorder_inv r \<Longrightarrow> recorder_inv (snd (StartReady w cfg songName r))"
  by (auto simp: recorder_inv_def StartReady_def Let_def startSourceMonitoring_def
      split: option.splits)

lemma inv_StartRecording: "recorder_inv r \<Longrightarrow> recorder_inv (snd (StartRecording w cfg r))"
  by (auto simp: recorder_inv_def StartRecording_def Let_def scanChannelStatus_def
      buildAndStartFFmpeg_def split: option.splits sum.splits)

lemma inv_Stop: "recorder_inv r \<Longrightarrow> recorder_inv (snd (Stop w r))"
proof (cases "status r = StatusRecording")
  case False
  then show "recorder_inv r \<Longrightarrow> ?thesis" by (simp add: Stop_def)
next
  case True
  assume i: "recorder_inv r"
  show ?thesis
  proof (cases "stopSourceMonitoring r")
    case ClosePanics
    then show ?thesis using i True by (simp add: Stop_def)
  next
    case (WaitsForever r1)
    then show ?thesis
      using i True stopSourceMonitoring_fields [of r r1]
      by (simp add: Stop_def recorder_inv_def)
  next
    case (Stopped r1)
    then show ?thesis
      using i True stopSourceMonitoring_fields [of r r1]
      by (auto simp: Stop_def Let_def split_beta recorder_inv_def stopFFmpeg_fields
          stopFFmpeg_clears split: option.splits)
  qed
qed

lemma inv_CancelReady: "recorder_inv r \<Longrightarrow> recorder_inv (snd (CancelReady r))"
proof (cases "stopSourceMonitoring r")
  case ClosePanics
  then show "recorder_inv r \<Longrightarrow> ?thesis" by (simp add: CancelReady_def)
next
  case (WaitsForever r1)
  then show "recorder_inv r \<Longrightarrow> ?thesis"
    using stopSourceMonitoring_fields [of r r1] by (auto simp: CancelReady_def recorder_inv_def)
next
  case (Stopped r1)
  then show "recorder_inv r \<Longrightarrow> ?thesis"
    using stopSourceMonitoring_fields [of r r1] by (auto simp: CancelReady_def recorder_inv_def)
qed

lemma inv_GetChannelStatus: "recorder_inv r \<Longrightarrow> recorder_inv (snd (GetChannelStatus w cfg r))"
  by (auto simp: recorder_inv_def GetChannelStatus_def scanChannelStatus_def Let_def
      split: option.splits)

lemma inv_monitorStep:
  assumes "recorder_inv r"
    and "(\<exists>returns. pc = ToStandby returns) \<or> pc = StartFailed \<Longrightarrow> status r \<noteq> StatusRecording"
  shows "recorder_inv (snd (monitorStep w cfg ev pc r))"
proof (cases pc)
  case CallStart
  then show ?thesis
    using inv_StartRecording [OF assms(1), of w cfg]
    by (simp add: split_beta split: option.split)
next
  case (ToStandby returns)
  then show ?thesis using assms by (simp add: recorder_inv_def Let_def)
next
  case StartFailed
  then show ?thesis using assms by (simp add: recorder_inv_def)
qed (use assms(1) in \<open>auto simp: recorder_inv_def Let_def split: select_case.splits\<close>)

text \<open>The schedule \<open>race_schedule\<close>, step by step.\<close>

lemma example_available: "checkAllSourcesAvailable example_world example_cfg"
  by (simp add: checkAllSourcesAvailable_iff example_cfg_def enabled_def example_world_def
      ValidatePort_def portExists_def findPortDuplicates_def ListPorts_def HasPrefix_def)

lemma world_duplicate_duplicates: "hasDuplicateSources world_duplicate example_cfg"
  by (simp add: world_duplicate_def hasDuplicateSources_def example_cfg_def enabled_def
      ValidatePort_def portExists_def findPortDuplicates_def ListPorts_def HasPrefix_def
      isDuplicateError_def errDuplicateSources_def example_world_def)

lemma example_MkdirAll:
  "os_MkdirAll example_world d = None" "os_MkdirAll world_duplicate d = None"
  by (simp_all add: example_world_def world_duplicate_def)

lemma StartReady_ffmpegCmd: "ffmpegCmd (snd (StartReady w cfg songName r)) = ffmpegCmd r"
  by (simp add: StartReady_def Let_def startSourceMonitoring_def split: option.split)

lemma StartReady_monitors:
  "monitors (snd (StartReady w cfg songName r)) =
     (if (status r = StatusStandby \<or> status r = StatusError) \<and> songName \<noteq> []
         \<and> os_MkdirAll w (Directory (Output cfg)) = None
      then monitors r @ [Starting] else monitors r)"
  by (simp add: StartReady_def Let_def startSourceMonitoring_def split: option.split)

lemma StartReady_status:
  "status (snd (StartReady w cfg songName r)) =
     (if (status r = StatusStandby \<or> status r = StatusError) \<and> songName \<noteq> []
      then (if os_MkdirAll w (Directory (Output cfg)) = None \<and> \<not> hasDuplicateSources w cfg
            then StatusReady else StatusError)
      else status r)"
  by (auto simp add: StartReady_def Let_def startSourceMonitoring_def split: option.split)

lemma race_error_fields:
  "status race_error = StatusError" "monitors race_error = [Starting]"
  "ffmpegCmd race_error = None"
  by (simp_all add: race_error_def StartReady_status StartReady_monitors StartReady_ffmpegCmd
      example_MkdirAll world_duplicate_duplicates NewPipeWireRecorder_def)

lemma race_ready_session:
  "session race_ready =
     Some \<lparr>SongName = ''song'', StartTime = 7, OutputFile = ''out/song.mkv'',
           ChannelCount = 1, ChannelNames = [''guitar:[dev:1]'']\<rparr>"
proof -
  have "fst (StartReady example_world example_cfg ''song'' race_error) = None"
    by (simp add: StartReady_def Let_def example_MkdirAll race_error_fields
        example_no_duplicates)
  from StartReady_session [OF this] show ?thesis
    by (simp add: race_ready_def) code_simp
qed

lemma race_ready_fields:
  "status race_ready = StatusReady" "monitors race_ready = [Starting, Starting]"
  "ffmpegCmd race_ready = None"
  by (simp_all add: race_ready_def StartReady_status StartReady_monitors StartReady_ffmpegCmd
      example_MkdirAll example_no_duplicates race_error_fields)

text \<open>Both monitors have seen the status Ready under the lock and have released the lock.\<close>

lemma race_both_checked:
  "run example_cfg (take 10 race_prefix) = race_ready\<lparr>monitors := [CallStart, CallStart]\<rparr>"
  by (simp add: run_def race_prefix_def race_error_def [symmetric] race_ready_def [symmetric]
      stepMonitor_def race_ready_fields Let_def example_no_duplicates example_available
      afterStateHandling_def)

lemma race_recording_ok:
  "fst (StartRecording example_world example_cfg (race_ready\<lparr>monitors := [CallStart, CallStart]\<rparr>))
     = None"
  by (intro StartRecording_ok [where pid = 42])
     (simp_all add: example_world_simps race_ready_fields race_ready_session)

lemma race_recording_fields:
  "status race_recording = StatusRecording" "monitors race_recording = [CallStart, CallStart]"
  "ffmpegCmd race_recording = Some example_cmd" "session race_recording = session race_ready"
  using StartRecording_fields [OF race_recording_ok] StartRecording_None_status [OF race_recording_ok]
  by (simp_all add: race_recording_def StartRecording_monitors race_ready_session example_cmd_def)
     (simp add: example_world_def)

text \<open>Monitor 1 has started the recording and has returned.\<close>

lemma race_started:
  "run example_cfg (take 11 race_prefix)
     = race_recording\<lparr>monitors := [CallStart, HasReturned], sourceMonitorDone := Some Closed\<rparr>"
proof -
  have "take 11 race_prefix = take 10 race_prefix @ [MonitorStep example_world TickerFired 1]"
    by (simp add: race_prefix_def)
  then have "run example_cfg (take 11 race_prefix)
     = stepMonitor example_world example_cfg TickerFired 1
         (race_ready\<lparr>monitors := [CallStart, CallStart]\<rparr>)"
    using race_both_checked by (simp add: run_def)
  then show ?thesis
    using race_recording_ok
    by (simp add: stepMonitor_def race_ready_fields split_beta race_recording_def [symmetric]
        race_recording_fields)
qed

text \<open>
  The call of \<open>StartRecording\<close> by monitor 0 is rejected, the status being Recording, and
  monitor 0 writes Error.
\<close>

lemma race_overwritten:
  "run example_cfg race_prefix
     = race_recording\<lparr>monitors := [HasReturned, HasReturned], sourceMonitorDone := Some Closed,
                       status := StatusError\<rparr>"
proof -
  have "race_prefix = take 11 race_prefix
          @ [MonitorStep example_world TickerFired 0, MonitorStep example_world TickerFired 0]"
    by (simp add: race_prefix_def)
  then have "run example_cfg race_prefix
     = foldl (perform example_cfg) (run example_cfg (take 11 race_prefix))
         [MonitorStep example_world TickerFired 0, MonitorStep example_world TickerFired 0]"
    unfolding run_def by (metis foldl_append)
  then show ?thesis
    by (simp add: race_started stepMonitor_def StartRecording_def race_recording_fields)
qed

lemma example_next:
  "cleanFileName ''next'' = ''next''"
  "map channelName (Channels example_cfg) = [''guitar:[dev:1]'']"
  by code_simp+

lemma run_reachable: "reachable cfg (run cfg schedule)"
proof -
  have "reachable cfg r \<Longrightarrow> reachable cfg (foldl (perform cfg) r schedule)" for r
  proof (induction schedule arbitrary: r)
    case Nil
    then show ?case by simp
  next
    case (Cons a as)
    have "reachable cfg (perform cfg r a)"
      using Cons.prems by (cases a) (auto intro: reachable.intros)
    then show ?case using Cons.IH by simp
  qed
  then show ?thesis by (simp add: run_def reach_new)
qed

text \<open>
  C5. The invariant is what the code is after: every method of the interface keeps it
  (\<open>inv_StartReady\<close>, \<open>inv_StartRecording\<close>, \<open>inv_Stop\<close>, \<open>inv_CancelReady\<close>), and so do the
  steps of a monitor as long as no other goroutine runs between its test of the status and
  its write (\<open>inv_monitorStep\<close>). But a monitor releases the lock between the test of
  l.622 and the call of \<open>StartRecording\<close>, and it writes Error after a failed call without
  looking at the status again. In the schedule \<open>race_schedule\<close>, which is a sequence of calls
  of \<open>StartReady\<close> and of steps of the two monitors these calls start, both monitors pass
  the test; monitor 1 starts the recording; the call by monitor 0 is rejected and monitor 0
  overwrites the status Recording with Error while the encoder runs; the next \<open>StartReady\<close>
  is accepted, and the recorder is in the status Ready with a session and with the handle
  of the running encoder, against the invariant.
\<close>

theorem monitor_race_breaks_invariant:
  "reachable example_cfg (run example_cfg race_schedule)
   \<and> status (run example_cfg (take 10 race_prefix)) = StatusReady
   \<and> monitors (run example_cfg (take 10 race_prefix)) = [CallStart, CallStart]
   \<and> status (run example_cfg (take 11 race_prefix)) = StatusRecording
   \<and> ffmpegCmd (run example_cfg (take 11 race_prefix)) = Some example_cmd
   \<and> monitors (run example_cfg (take 11 race_prefix)) = [CallStart, HasReturned]
   \<and> status (run example_cfg race_prefix) = StatusError
   \<and> ffmpegCmd (run example_cfg race_prefix) = Some example_cmd
   \<and> monitors (run example_cfg race_prefix) = [HasReturned, HasReturned]
   \<and> status (run example_cfg race_schedule) = StatusReady
   \<and> session (run example_cfg race_schedule)
       = Some \<lparr>SongName = ''next'', StartTime = 7, OutputFile = ''out/next.mkv'',
               ChannelCount = 1, ChannelNames = [''guitar:[dev:1]'']\<rparr>
   \<and> ffmpegCmd (run example_cfg race_schedule) = Some example_cmd"
proof -
  have r: "run example_cfg race_schedule
             = snd (StartReady example_world example_cfg ''next'' (run example_cfg race_prefix))"
    by (simp add: run_def race_schedule_def)
  have ok: "fst (StartReady example_world example_cfg ''next'' (run example_cfg race_prefix)) = None"
    by (simp add: StartReady_def Let_def example_MkdirAll race_overwritten
        example_no_duplicates)
  have s: "session (run example_cfg race_schedule)
       = Some \<lparr>SongName = ''next'', StartTime = 7, OutputFile = ''out/next.mkv'',
               ChannelCount = 1, ChannelNames = [''guitar:[dev:1]'']\<rparr>"
    using StartReady_session [OF ok] example_next
    by (simp add: r) (simp add: example_world_def example_cfg_def)
  have a: "status (run example_cfg (take 10 race_prefix)) = StatusReady"
    "monitors (run example_cfg (take 10 race_prefix)) = [CallStart, CallStart]"
    by (simp_all add: race_both_checked race_ready_fields)
  have b: "status (run example_cfg (take 11 race_prefix)) = StatusRecording"
    "ffmpegCmd (run example_cfg (take 11 race_prefix)) = Some example_cmd"
    "monitors (run example_cfg (take 11 race_prefix)) = [CallStart, HasReturned]"
    by (simp_all add: race_started race_recording_fields)
  have c: "status (run example_cfg race_prefix) = StatusError"
    "ffmpegCmd (run example_cfg race_prefix) = Some example_cmd"
    "monitors (run example_cfg race_prefix) = [HasReturned, HasReturned]"
    by (simp_all add: race_overwritten race_recording_fields)
  have d: "status (run example_cfg race_schedule) = StatusReady"
    "ffmpegCmd (run example_cfg race_schedule) = Some example_cmd"
    by (simp_all add: r StartReady_status StartReady_ffmpegCmd example_MkdirAll
        example_no_duplicates c)
  show ?thesis
    using run_reachable [of example_cfg race_schedule] a b c d s by simp
qed

section \<open>Channel status\<close>


































section \<open>Connecting with retries\<close>

lemma Contains_iff: "Contains s substr \<longleftrightarrow> (\<exists>before after. s = before @ substr @ after)"
proof (induction s)
  case Nil
  show ?case by auto
next
  case (Cons c s)
  have "(\<exists>before after. c # s = before @ substr @ after)
        \<longleftrightarrow> prefix substr (c # s) \<or> (\<exists>before after. s = before @ substr @ after)"
  proof
    assume "\<exists>before after. c # s = before @ substr @ after"
    then obtain before after where h: "c # s = before @ substr @ after" by blast
    show "prefix substr (c # s) \<or> (\<exists>before after. s = before @ substr @ after)"
    proof (cases before)
      case Nil
      then show ?thesis using h by (auto simp: prefix_def)
    next
      case (Cons b bs)
      then have "s = bs @ substr @ after" using h by simp
      then show ?thesis by blast
    qed
  next
    assume "prefix substr (c # s) \<or> (\<exists>before after. s = before @ substr @ after)"
    then show "\<exists>before after. c # s = before @ substr @ after"
    proof
      assume "prefix substr (c # s)"
      then obtain after where "c # s = [] @ substr @ after" by (auto simp: prefix_def)
      then show ?thesis by blast
    next
      assume "\<exists>before after. s = before @ substr @ after"
      then obtain before after where "s = before @ substr @ after" by blast
      then have "c # s = (c # before) @ substr @ after" by simp
      then show ?thesis by blast
    qed
  qed
  then show ?case using Cons.IH by simp
qed

lemma containsAny_iff:
  "containsAny lowerPort apps \<longleftrightarrow> (\<exists>app \<in> set apps. Contains lowerPort app)"
  by (induction apps) auto

lemma isEphemeralPort_iff:
  "isEphemeralPort strings_ToLower portName \<longleftrightarrow>
     (\<exists>app \<in> set ephemeralApps. \<exists>before after.
         strings_ToLower portName = before @ app @ after)"
  by (simp add: isEphemeralPort_def Let_def containsAny_iff Contains_iff)

lemma retryLoop_stop:
  "maxRetries < attempt \<Longrightarrow>
     retryLoop ws s d maxRetries retryDelay attempt = (Some (errRetriesExhausted s d maxRetries), [])"
  by (subst retryLoop.simps) (simp add: errRetriesExhausted_def)

lemma retryLoop_connects:
  "attempt \<le> maxRetries \<Longrightarrow> connects ws s d attempt \<Longrightarrow>
     retryLoop ws s d maxRetries retryDelay attempt = (None, [CheckPort attempt, ConnectAttempt attempt])"
  by (subst retryLoop.simps) (simp add: connects_def)

lemma retryLoop_retry:
  "attempt \<le> maxRetries \<Longrightarrow> \<not> connects ws s d attempt \<Longrightarrow>
     retryLoop ws s d maxRetries retryDelay attempt =
       (fst (retryLoop ws s d maxRetries retryDelay (Suc attempt)),
        failedAttempt ws s maxRetries retryDelay attempt
          @ snd (retryLoop ws s d maxRetries retryDelay (Suc attempt)))"
  by (subst retryLoop.simps) (auto simp: connects_def failedAttempt_def Let_def split_beta)

lemma retryLoop_success_iff:
  "fst (retryLoop ws s d m delay a) = None \<longleftrightarrow> (\<exists>n. a \<le> n \<and> n \<le> m \<and> connects ws s d n)"
proof (induction "Suc m - a" arbitrary: a)
  case 0
  then have "m < a" by simp
  then show ?case by (auto simp: retryLoop_stop)
next
  case (Suc k)
  then have le: "a \<le> m" and k: "k = Suc m - Suc a" by simp_all
  show ?case
  proof (cases "connects ws s d a")
    case True
    then show ?thesis using le by (auto simp: retryLoop_connects)
  next
    case False
    have "(\<exists>n. a \<le> n \<and> n \<le> m \<and> connects ws s d n)
          \<longleftrightarrow> (\<exists>n. Suc a \<le> n \<and> n \<le> m \<and> connects ws s d n)"
      using False by (metis Suc_leI le_neq_implies_less Suc_leD)
    then show ?thesis
      using Suc.hyps(1) [OF k] le False by (simp add: retryLoop_retry)
  qed
qed

lemma retryLoop_error:
  "fst (retryLoop ws s d m delay a) \<noteq> None \<Longrightarrow>
     fst (retryLoop ws s d m delay a) = Some (errRetriesExhausted s d m)"
proof (induction "Suc m - a" arbitrary: a)
  case 0
  then have "m < a" by simp
  then show ?case by (simp add: retryLoop_stop)
next
  case (Suc k)
  then have le: "a \<le> m" and k: "k = Suc m - Suc a" by simp_all
  show ?case
  proof (cases "connects ws s d a")
    case True
    then show ?thesis using le Suc.prems by (simp add: retryLoop_connects)
  next
    case False
    then show ?thesis
      using Suc.hyps(1) [OF k] le Suc.prems by (simp add: retryLoop_retry)
  qed
qed

lemma failedAttempt_checks:
  "length (filter isCheckPort (failedAttempt ws s m delay a)) = 1"
  by (simp add: failedAttempt_def)

lemma retryLoop_checks:
  "length (filter isCheckPort (snd (retryLoop ws s d m delay a))) \<le> Suc m - a
   \<and> (fst (retryLoop ws s d m delay a) \<noteq> None \<longrightarrow>
        length (filter isCheckPort (snd (retryLoop ws s d m delay a))) = Suc m - a)"
proof (induction "Suc m - a" arbitrary: a)
  case 0
  then have "m < a" by simp
  then show ?case by (simp add: retryLoop_stop)
next
  case (Suc k)
  then have le: "a \<le> m" and k: "k = Suc m - Suc a" by simp_all
  show ?case
  proof (cases "connects ws s d a")
    case True
    then show ?thesis using le by (simp add: retryLoop_connects)
  next
    case False
    then show ?thesis
      using Suc.hyps(1) [OF k] le k Suc.hyps(2)
      by (simp add: retryLoop_retry failedAttempt_checks)
  qed
qed

lemma retryLoop_sleeps:
  "Sleep t \<in> set (snd (retryLoop ws s d m delay a)) \<Longrightarrow> t = delay"
proof (induction "Suc m - a" arbitrary: a)
  case 0
  then have "m < a" by simp
  then show ?case using "0.prems" by (simp add: retryLoop_stop)
next
  case (Suc k)
  then have le: "a \<le> m" and k: "k = Suc m - Suc a" by simp_all
  show ?case
  proof (cases "connects ws s d a")
    case True
    then show ?thesis using le Suc.prems by (simp add: retryLoop_connects)
  next
    case False
    then show ?thesis
      using Suc.hyps(1) [OF k] le Suc.prems
      by (auto simp: retryLoop_retry failedAttempt_def split: if_splits)
  qed
qed

lemma retryLoop_checked_first:
  "ConnectAttempt n \<in> set (snd (retryLoop ws s d m delay a)) \<Longrightarrow>
     portExists (ws n) s
     \<and> (\<exists>before after. snd (retryLoop ws s d m delay a) = before @ CheckPort n # ConnectAttempt n # after)"
proof (induction "Suc m - a" arbitrary: a)
  case 0
  then have "m < a" by simp
  then show ?case using "0.prems" by (simp add: retryLoop_stop)
next
  case (Suc k)
  then have le: "a \<le> m" and k: "k = Suc m - Suc a" by simp_all
  let ?later = "snd (retryLoop ws s d m delay (Suc a))"
  show ?case
  proof (cases "connects ws s d a")
    case True
    then have t: "snd (retryLoop ws s d m delay a) = [] @ CheckPort a # ConnectAttempt a # []"
      using le by (simp add: retryLoop_connects)
    then have "n = a" using Suc.prems by simp
    then show ?thesis using True t unfolding connects_def by blast
  next
    case False
    then have t: "snd (retryLoop ws s d m delay a) = failedAttempt ws s m delay a @ ?later"
      using le by (simp add: retryLoop_retry)
    show ?thesis
    proof (cases "ConnectAttempt n \<in> set (failedAttempt ws s m delay a)")
      case True
      then have na: "n = a" and ex: "portExists (ws a) s"
        by (auto simp: failedAttempt_def split: if_splits)
      have "failedAttempt ws s m delay a
              = [] @ CheckPort n # ConnectAttempt n # (if a < m then [Sleep delay] else [])"
        using na ex by (simp add: failedAttempt_def)
      then have "snd (retryLoop ws s d m delay a)
              = [] @ CheckPort n # ConnectAttempt n # ((if a < m then [Sleep delay] else []) @ ?later)"
        using t by simp
      then show ?thesis using na ex by blast
    next
      case False
      then have "ConnectAttempt n \<in> set ?later" using Suc.prems t by simp
      from Suc.hyps(1) [OF k this]
      obtain before after where
        ex: "portExists (ws n) s" and l: "?later = before @ CheckPort n # ConnectAttempt n # after"
        by blast
      have "snd (retryLoop ws s d m delay a)
              = (failedAttempt ws s m delay a @ before) @ CheckPort n # ConnectAttempt n # after"
        using t l by simp
      then show ?thesis using ex by blast
    qed
  qed
qed

lemma retryLoop_first_success:
  "fst (retryLoop ws s d m delay a) = None \<Longrightarrow>
     \<exists>n before. snd (retryLoop ws s d m delay a) = before @ [CheckPort n, ConnectAttempt n]
        \<and> a \<le> n \<and> n \<le> m \<and> connects ws s d n
        \<and> (\<forall>k. ConnectAttempt k \<in> set before \<longrightarrow> connectPorts (ws k) s d \<noteq> None)"
proof (induction "Suc m - a" arbitrary: a)
  case 0
  then have "m < a" by simp
  then show ?case using "0.prems" by (simp add: retryLoop_stop)
next
  case (Suc k)
  then have le: "a \<le> m" and k: "k = Suc m - Suc a" by simp_all
  let ?later = "snd (retryLoop ws s d m delay (Suc a))"
  show ?case
  proof (cases "connects ws s d a")
    case True
    then have "snd (retryLoop ws s d m delay a) = [] @ [CheckPort a, ConnectAttempt a]"
      using le by (simp add: retryLoop_connects)
    then show ?thesis using True le by fastforce
  next
    case False
    then have t: "snd (retryLoop ws s d m delay a) = failedAttempt ws s m delay a @ ?later"
      and f: "fst (retryLoop ws s d m delay (Suc a)) = None"
      using le Suc.prems by (simp_all add: retryLoop_retry)
    from Suc.hyps(1) [OF k f]
    obtain n before where
      h: "?later = before @ [CheckPort n, ConnectAttempt n]" "Suc a \<le> n" "n \<le> m"
         "connects ws s d n"
         "\<forall>k. ConnectAttempt k \<in> set before \<longrightarrow> connectPorts (ws k) s d \<noteq> None"
      by blast
    have fa: "\<forall>k. ConnectAttempt k \<in> set (failedAttempt ws s m delay a)
                 \<longrightarrow> connectPorts (ws k) s d \<noteq> None"
      using False by (auto simp: failedAttempt_def connects_def split: if_splits)
    have "snd (retryLoop ws s d m delay a)
            = (failedAttempt ws s m delay a @ before) @ [CheckPort n, ConnectAttempt n]"
      using t h(1) by simp
    moreover have "\<forall>k. ConnectAttempt k \<in> set (failedAttempt ws s m delay a @ before)
                     \<longrightarrow> connectPorts (ws k) s d \<noteq> None"
      using fa h(5) by auto
    moreover have "a \<le> n" using h(2) by simp
    ultimately show ?thesis using h(3,4) by blast
  qed
qed

lemma retryLoop_trace_success:
  "fst (retryLoop ws s d m delay a) = None \<Longrightarrow>
     \<exists>n. a \<le> n \<and> n \<le> m \<and> connects ws s d n \<and> (\<forall>k. a \<le> k \<and> k < n \<longrightarrow> \<not> connects ws s d k)
        \<and> snd (retryLoop ws s d m delay a)
            = concat (map (failedAttempt ws s m delay) [a..<n]) @ [CheckPort n, ConnectAttempt n]"
proof (induction "Suc m - a" arbitrary: a)
  case 0
  then have "m < a" by simp
  then show ?case using "0.prems" by (simp add: retryLoop_stop)
next
  case (Suc k)
  then have le: "a \<le> m" and k: "k = Suc m - Suc a" by simp_all
  show ?case
  proof (cases "connects ws s d a")
    case True
    then have "snd (retryLoop ws s d m delay a)
                 = concat (map (failedAttempt ws s m delay) [a..<a]) @ [CheckPort a, ConnectAttempt a]"
      using le by (simp add: retryLoop_connects)
    then show ?thesis using True le by (intro exI [of _ a]) auto
  next
    case False
    then have t: "snd (retryLoop ws s d m delay a)
                    = failedAttempt ws s m delay a @ snd (retryLoop ws s d m delay (Suc a))"
      and f: "fst (retryLoop ws s d m delay (Suc a)) = None"
      using le Suc.prems by (simp_all add: retryLoop_retry)
    from Suc.hyps(1) [OF k f]
    obtain n where
      h: "Suc a \<le> n" "n \<le> m" "connects ws s d n"
         "\<forall>k. Suc a \<le> k \<and> k < n \<longrightarrow> \<not> connects ws s d k"
         "snd (retryLoop ws s d m delay (Suc a))
            = concat (map (failedAttempt ws s m delay) [Suc a..<n]) @ [CheckPort n, ConnectAttempt n]"
      by blast
    have up: "[a..<n] = a # [Suc a..<n]"
      using h(1) by (simp add: upt_conv_Cons)
    have none: "\<forall>k. a \<le> k \<and> k < n \<longrightarrow> \<not> connects ws s d k"
      using False h(4) by (metis Suc_leI le_neq_implies_less)
    have "snd (retryLoop ws s d m delay a)
            = concat (map (failedAttempt ws s m delay) [a..<n]) @ [CheckPort n, ConnectAttempt n]"
      using t h(5) up by simp
    then show ?thesis using h(1,2,3) none by (intro exI [of _ n]) auto
  qed
qed

lemma retryLoop_trace_failure:
  "fst (retryLoop ws s d m delay a) \<noteq> None \<Longrightarrow>
     snd (retryLoop ws s d m delay a) = concat (map (failedAttempt ws s m delay) [a..<Suc m])"
proof (induction "Suc m - a" arbitrary: a)
  case 0
  then have "m < a" by simp
  then show ?case by (simp add: retryLoop_stop)
next
  case (Suc k)
  then have le: "a \<le> m" and k: "k = Suc m - Suc a" by simp_all
  show ?case
  proof (cases "connects ws s d a")
    case True
    then show ?thesis using le Suc.prems by (simp add: retryLoop_connects)
  next
    case False
    have up: "[a..<Suc m] = a # [Suc a..<Suc m]"
      using le by (simp add: upt_conv_Cons)
    show ?thesis
      using Suc.hyps(1) [OF k] le Suc.prems False
      by (simp add: retryLoop_retry up del: upt_Suc)
  qed
qed

text \<open>
  C6. \<open>ConnectPortsWithRetry\<close> treats the source as ephemeral iff its name, lower-cased
  by \<open>strings.ToLower\<close> (whatever that function returns), contains one of the eleven
  application names, and then runs at most 15 attempts with
  sleeps of 1000 ms, or else at most 5 attempts with sleeps of 500 ms. Every attempt checks
  first that the source port exists, and a connection is attempted only in an attempt where
  it does. The call succeeds iff some attempt within the budget finds the port and
  connects; it then ends with the first such attempt, every earlier attempt having
  been followed by one sleep. Otherwise all attempts are used and the call returns
  the error \<open>failed to connect ... after N attempts\<close>; being a total function it always
  returns.
\<close>

theorem ConnectPortsWithRetry_policy:
  "(isEphemeralPort strings_ToLower src \<longleftrightarrow>
      (\<exists>app \<in> set ephemeralApps. \<exists>before after. strings_ToLower src = before @ app @ after))
   \<and> (let maxRetries = (if isEphemeralPort strings_ToLower src then 15 else 5);
           retryDelay = (if isEphemeralPort strings_ToLower src then 1000 else 500);
           err = fst (ConnectPortsWithRetry strings_ToLower ws src dst);
           trace = snd (ConnectPortsWithRetry strings_ToLower ws src dst)
       in length (filter isCheckPort trace) \<le> maxRetries
          \<and> (\<forall>t. Sleep t \<in> set trace \<longrightarrow> t = retryDelay)
          \<and> (\<forall>n. ConnectAttempt n \<in> set trace \<longrightarrow>
                portExists (ws n) src
                \<and> (\<exists>before after. trace = before @ CheckPort n # ConnectAttempt n # after))
          \<and> (err = None \<longleftrightarrow> (\<exists>n. 1 \<le> n \<and> n \<le> maxRetries \<and> connects ws src dst n))
          \<and> (err = None \<longrightarrow>
                (\<exists>n. 1 \<le> n \<and> n \<le> maxRetries \<and> connects ws src dst n
                   \<and> (\<forall>k. 1 \<le> k \<and> k < n \<longrightarrow> \<not> connects ws src dst k)
                   \<and> trace = concat (map (failedAttempt ws src maxRetries retryDelay) [1..<n])
                               @ [CheckPort n, ConnectAttempt n]))
          \<and> (err \<noteq> None \<longrightarrow>
                err = Some (errRetriesExhausted src dst maxRetries)
                \<and> length (filter isCheckPort trace) = maxRetries
                \<and> trace = concat (map (failedAttempt ws src maxRetries retryDelay)
                                     [1..<Suc maxRetries])))"
proof -
  define m :: nat where "m = (if isEphemeralPort strings_ToLower src then 15 else 5)"
  define delay :: nat where "delay = (if isEphemeralPort strings_ToLower src then 1000 else 500)"
  have c: "ConnectPortsWithRetry strings_ToLower ws src dst = retryLoop ws src dst m delay 1"
    by (simp add: ConnectPortsWithRetry_def m_def delay_def Let_def)
  have p1: "length (filter isCheckPort (snd (retryLoop ws src dst m delay 1))) \<le> m"
    using retryLoop_checks [of ws src dst m delay 1] by simp
  have p2: "\<forall>t. Sleep t \<in> set (snd (retryLoop ws src dst m delay 1)) \<longrightarrow> t = delay"
    using retryLoop_sleeps by blast
  have p3: "\<forall>n. ConnectAttempt n \<in> set (snd (retryLoop ws src dst m delay 1)) \<longrightarrow>
                portExists (ws n) src
                \<and> (\<exists>before after. snd (retryLoop ws src dst m delay 1)
                                      = before @ CheckPort n # ConnectAttempt n # after)"
    using retryLoop_checked_first by blast
  have p4: "fst (retryLoop ws src dst m delay 1) = None
              \<longleftrightarrow> (\<exists>n. 1 \<le> n \<and> n \<le> m \<and> connects ws src dst n)"
    by (rule retryLoop_success_iff)
  have p5: "fst (retryLoop ws src dst m delay 1) = None \<longrightarrow>
              (\<exists>n. 1 \<le> n \<and> n \<le> m \<and> connects ws src dst n
                 \<and> (\<forall>k. 1 \<le> k \<and> k < n \<longrightarrow> \<not> connects ws src dst k)
                 \<and> snd (retryLoop ws src dst m delay 1)
                     = concat (map (failedAttempt ws src m delay) [1..<n])
                         @ [CheckPort n, ConnectAttempt n])"
    using retryLoop_trace_success [of ws src dst m delay 1] by blast
  have p6: "fst (retryLoop ws src dst m delay 1) \<noteq> None \<longrightarrow>
              fst (retryLoop ws src dst m delay 1) = Some (errRetriesExhausted src dst m)
              \<and> length (filter isCheckPort (snd (retryLoop ws src dst m delay 1))) = m
              \<and> snd (retryLoop ws src dst m delay 1)
                  = concat (map (failedAttempt ws src m delay) [1..<Suc m])"
    using retryLoop_error [of ws src dst m delay 1] retryLoop_checks [of ws src dst m delay 1]
      retryLoop_trace_failure [of ws src dst m delay 1]
    by simp
  show ?thesis
    unfolding Let_def c m_def [symmetric] delay_def [symmetric]
    using isEphemeralPort_iff [of strings_ToLower src] p1 p2 p3 p4 p5 p6 by (intro conjI)
qed

lemma example_retry_late:
  "ConnectPortsWithRetry lowerASCII worlds_late ''dev:1'' ''jamcapture_guitar:input_1''
     = (None, [CheckPort 1, Sleep 500, CheckPort 2, Sleep 500, CheckPort 3, ConnectAttempt 3])"
  by code_simp

lemma example_retry_absent:
  "fst (ConnectPortsWithRetry lowerASCII worlds_absent ''Firefox:output_FL'' ''jamcapture_guitar:input_1'')
     = Some ''failed to connect Firefox:output_FL to jamcapture_guitar:input_1 after 15 attempts''"
  "length (filter isCheckPort
     (snd (ConnectPortsWithRetry lowerASCII worlds_absent ''Firefox:output_FL'' ''jamcapture_guitar:input_1''))) = 15"
  by code_simp+

lemma example_ephemeral:
  "\<not> isEphemeralPort lowerASCII ''dev:1''" "isEphemeralPort lowerASCII ''Firefox:output_FL''"
  by code_simp+

lemma example_connects:
  "connects worlds_late ''dev:1'' ''jamcapture_guitar:input_1'' 3"
  "portExists (worlds_late 3) ''dev:1''"
  by (simp_all add: connects_def worlds_late_def portExists_def connectPorts_def example_world_def)

theorem ConnectPortsWithRetry_policy_witness:
  "\<not> isEphemeralPort lowerASCII ''dev:1''
   \<and> portExists (worlds_late 3) ''dev:1''
   \<and> connects worlds_late ''dev:1'' ''jamcapture_guitar:input_1'' 3
   \<and> ConnectPortsWithRetry lowerASCII worlds_late ''dev:1'' ''jamcapture_guitar:input_1''
       = (None, [CheckPort 1, Sleep 500, CheckPort 2, Sleep 500, CheckPort 3, ConnectAttempt 3])
   \<and> ConnectAttempt 3 \<in> set (snd (ConnectPortsWithRetry lowerASCII worlds_late ''dev:1'' ''jamcapture_guitar:input_1''))
   \<and> Sleep 500 \<in> set (snd (ConnectPortsWithRetry lowerASCII worlds_late ''dev:1'' ''jamcapture_guitar:input_1''))
   \<and> isEphemeralPort lowerASCII ''Firefox:output_FL''
   \<and> fst (ConnectPortsWithRetry lowerASCII worlds_absent ''Firefox:output_FL'' ''jamcapture_guitar:input_1'')
       = Some ''failed to connect Firefox:output_FL to jamcapture_guitar:input_1 after 15 attempts''
   \<and> length (filter isCheckPort
        (snd (ConnectPortsWithRetry lowerASCII worlds_absent ''Firefox:output_FL'' ''jamcapture_guitar:input_1''))) = 15"
  using ConnectPortsWithRetry_policy [of lowerASCII "''dev:1''" worlds_late "''jamcapture_guitar:input_1''"]
    ConnectPortsWithRetry_policy [of lowerASCII "''Firefox:output_FL''" worlds_absent "''jamcapture_guitar:input_1''"]
  by (simp add: example_retry_late example_retry_absent example_ephemeral example_connects)

end
